theory Spec2Isabelle
  imports Complex_Main
begin

section \<open>Python values used by the service\<close>

text \<open>
  Strings are lists of characters, read as code points below 256. The three string
  operations the service relies on are \<^verbatim>\<open>str.strip\<close>, \<^verbatim>\<open>str.lower\<close> and the
  substring test \<^verbatim>\<open>in\<close>. An \<^verbatim>\<open>Optional[str]\<close> is a \<open>string option\<close>; Python
  treats both \<^verbatim>\<open>None\<close> and the empty string as false.
\<close>

definition truthy :: "string option \<Rightarrow> bool" where
  "truthy x = (case x of None \<Rightarrow> False | Some s \<Rightarrow> s \<noteq> [])"

text \<open>\<^verbatim>\<open>x or y\<close> on optional strings: the first operand when it is true, else the second.\<close>

definition py_or :: "string option \<Rightarrow> string option \<Rightarrow> string option" where
  "py_or x y = (if truthy x then x else y)"

text \<open>
  \<^verbatim>\<open>str.isspace\<close> below 256: tab to carriage return, the four separators 28 to 31,
  the space, NEL (133) and the no-break space (160).
\<close>

definition is_space :: "char \<Rightarrow> bool" where
  "is_space c = (let n = (of_char c :: nat) in
     (9 \<le> n \<and> n \<le> 13) \<or> (28 \<le> n \<and> n \<le> 32) \<or> n = 133 \<or> n = 160)"

definition py_strip :: "string \<Rightarrow> string" where
  "py_strip s = rev (dropWhile is_space (rev (dropWhile is_space s)))"

text \<open>
  \<^verbatim>\<open>str.lower\<close> below 256: the letters A to Z and the Latin-1 capitals 192 to 222
  (without the multiplication sign 215) move up by 32. In each of these codes the bit
  worth 32 is clear, so moving up by 32 sets that bit.
\<close>

definition is_upper :: "char \<Rightarrow> bool" where
  "is_upper c = (let n = (of_char c :: nat) in
     (65 \<le> n \<and> n \<le> 90) \<or> (192 \<le> n \<and> n \<le> 222 \<and> n \<noteq> 215))"

definition lower_char :: "char \<Rightarrow> char" where
  "lower_char c =
     (if is_upper c
      then (case c of Char b0 b1 b2 b3 b4 b5 b6 b7 \<Rightarrow> Char b0 b1 b2 b3 b4 True b6 b7)
      else c)"

definition py_lower :: "string \<Rightarrow> string" where
  "py_lower s = map lower_char s"

fun starts_with :: "string \<Rightarrow> string \<Rightarrow> bool" where
  "starts_with [] s = True"
| "starts_with (p # ps) [] = False"
| "starts_with (p # ps) (c # cs) = (p = c \<and> starts_with ps cs)"

text \<open>\<^verbatim>\<open>sub in s\<close>: \<open>sub\<close> occurs in \<open>s\<close> as a contiguous substring.\<close>

fun py_in :: "string \<Rightarrow> string \<Rightarrow> bool" where
  "py_in sub [] = (sub = [])"
| "py_in sub (c # cs) = (starts_with sub (c # cs) \<or> py_in sub cs)"

text \<open>
  \<^verbatim>\<open>str.rfind\<close> for a single character: the index of its last occurrence, or \<open>-1\<close>.
\<close>

definition rfind :: "char \<Rightarrow> string \<Rightarrow> int" where
  "rfind c p = (if c \<in> set p
     then int (length p) - 1 - int (length (takeWhile (\<lambda>x. x \<noteq> c) (rev p)))
     else - 1)"

text \<open>
  \<^verbatim>\<open>os.path.splitext\<close> on POSIX: the extension starts at the last dot, provided that
  dot comes after the last slash and some character between the slash and the dot is not
  a dot (leading dots of a file name do not start an extension).
\<close>

definition splitext :: "string \<Rightarrow> string \<times> string" where
  "splitext p = (let sepIndex = rfind CHR ''/'' p; dotIndex = rfind CHR ''.'' p in
     if dotIndex > sepIndex \<and>
        list_ex (\<lambda>x. x \<noteq> CHR ''.'')
          (take (nat (dotIndex - (sepIndex + 1))) (drop (nat (sepIndex + 1)) p))
     then (take (nat dotIndex) p, drop (nat dotIndex) p)
     else (p, []))"

section \<open>Configuration (app/config.py)\<close>

definition MAX_FILE_SIZE :: nat where
  "MAX_FILE_SIZE = 25 * 1024 * 1024"

definition ALLOWED_AUDIO_TYPES :: "string list" where
  "ALLOWED_AUDIO_TYPES =
     [''audio/mpeg'', ''audio/wav'', ''audio/mp4'', ''audio/m4a'', ''audio/x-m4a'', ''audio/ogg'']"

definition WEBHOOK_RETRIES_default :: int where
  "WEBHOOK_RETRIES_default = 3"

section \<open>Payload type validation (app/main.py)\<close>

definition EXTENSION_TO_MIME :: "(string \<times> string) list" where
  "EXTENSION_TO_MIME =
     [(''.mp3'', ''audio/mpeg''), (''.wav'', ''audio/wav''), (''.m4a'', ''audio/m4a''),
      (''.mp4'', ''audio/mp4''), (''.ogg'', ''audio/ogg''), (''.flac'', ''audio/flac'')]"

definition normalize_content_type :: "string option \<Rightarrow> string option" where
  "normalize_content_type content_type =
     (case content_type of
        None \<Rightarrow> None
      | Some c \<Rightarrow> if c = [] then None else Some (py_lower (py_strip c)))"

definition get_mime_from_extension :: "string \<Rightarrow> string option" where
  "get_mime_from_extension filename =
     (if filename = [] then None
      else map_of EXTENSION_TO_MIME (py_lower (snd (splitext filename))))"

text \<open>
  \<^verbatim>\<open>validate_audio_type\<close>: the declared content type first, the file name's extension
  as the fallback. Its logging is left out; the result depends on the two arguments and
  the allow-list only.
\<close>

definition validate_audio_type :: "string option \<Rightarrow> string option \<Rightarrow> bool" where
  "validate_audio_type content_type filename =
     (let normalized_type = normalize_content_type content_type in
      if truthy normalized_type \<and> the normalized_type \<in> set ALLOWED_AUDIO_TYPES then True
      else if truthy filename then
        (let mime_from_ext = get_mime_from_extension (the filename) in
         if truthy mime_from_ext \<and> the mime_from_ext \<in> set ALLOWED_AUDIO_TYPES then True
         else False)
      else False)"

text \<open>
  The validator as the specification words it, for comparison with the code: step 1 on the
  trimmed, lowercased content type (an absent one counts as empty), step 2 on the
  lowercased extension of the file name (an absent one counts as empty) through the
  six-entry table, step 3 rejects.
\<close>

definition spec_extension_table :: "string \<Rightarrow> string option" where
  "spec_extension_table ext =
     (if ext = ''.mp3'' then Some ''audio/mpeg''
      else if ext = ''.wav'' then Some ''audio/wav''
      else if ext = ''.m4a'' then Some ''audio/m4a''
      else if ext = ''.mp4'' then Some ''audio/mp4''
      else if ext = ''.ogg'' then Some ''audio/ogg''
      else if ext = ''.flac'' then Some ''audio/flac''
      else None)"

definition spec_step1 :: "string option \<Rightarrow> bool" where
  "spec_step1 content_type =
     (let n = py_lower (py_strip (case content_type of None \<Rightarrow> [] | Some c \<Rightarrow> c))
      in n \<noteq> [] \<and> n \<in> set ALLOWED_AUDIO_TYPES)"

definition spec_step2 :: "string option \<Rightarrow> bool" where
  "spec_step2 filename =
     (case spec_extension_table
             (py_lower (snd (splitext (case filename of None \<Rightarrow> [] | Some f \<Rightarrow> f)))) of
        None \<Rightarrow> False
      | Some mime \<Rightarrow> mime \<in> set ALLOWED_AUDIO_TYPES)"

definition spec_validate_audio_type :: "string option \<Rightarrow> string option \<Rightarrow> bool" where
  "spec_validate_audio_type content_type filename =
     (if spec_step1 content_type then True
      else if spec_step2 filename then True
      else False)"

section \<open>Numbers as text\<close>

definition digit_char :: "nat \<Rightarrow> char" where
  "digit_char d = ''0123456789'' ! (d mod 10)"

function show_nat :: "nat \<Rightarrow> string" where
  "show_nat n = (if n < 10 then [digit_char n] else show_nat (n div 10) @ [digit_char (n mod 10)])"
  by pat_completeness auto
termination
  by (relation "measure id") auto

declare show_nat.simps [simp del]

definition show_int :: "int \<Rightarrow> string" where
  "show_int i = (if i < 0 then CHR ''-'' # show_nat (nat (- i)) else show_nat (nat i))"

text \<open>
  \<^verbatim>\<open>int(x)\<close> on a finite float truncates towards zero. Durations are modelled as real
  numbers; the infinities and NaN are left out.
\<close>

definition py_int :: "real \<Rightarrow> int" where
  "py_int x = (if 0 \<le> x then \<lfloor>x\<rfloor> else \<lceil>x\<rceil>)"

text \<open>\<^verbatim>\<open>str(x)\<close> of an optional string inside an f-string: \<^verbatim>\<open>None\<close> prints as its name.\<close>

definition str_opt :: "string option \<Rightarrow> string" where
  "str_opt x = (case x of None \<Rightarrow> ''None'' | Some s \<Rightarrow> s)"

text \<open>
  \<^verbatim>\<open>str(xs)\<close> of a list of strings without quotes or backslashes, as the allow-list is.
\<close>

fun join_quoted :: "string list \<Rightarrow> string" where
  "join_quoted [] = []"
| "join_quoted [x] = CHR 0x27 # x @ [CHR 0x27]"
| "join_quoted (x # y # ys) = CHR 0x27 # x @ [CHR 0x27] @ '', '' @ join_quoted (y # ys)"

definition str_list :: "string list \<Rightarrow> string" where
  "str_list xs = ''['' @ join_quoted xs @ '']''"

section \<open>Exceptions\<close>

text \<open>
  The exception classes the service raises, catches or tells apart, each with the text
  \<^verbatim>\<open>str(e)\<close> gives; \<open>HTTPException\<close> carries its status code and detail, and the
  framework's \<open>RequestValidationError\<close> the names of the parameters it could not bind.
  All of them are subclasses of \<^verbatim>\<open>Exception\<close>; task cancellation and interpreter
  exit, which are not, stay outside the model.
\<close>

datatype exn =
    HTTPException nat string
  | FileNotFoundError string
  | BinasciiError string
  | ValueError string
  | PyMongoError string
  | TimeoutException string
  | ConnectError string
  | OSError string
  | RequestValidationError "string list"
  | OtherException string

text \<open>
  The framework's \<open>HTTPException\<close> prints as status code, colon, detail. A
  \<open>RequestValidationError\<close> is raised by the framework outside the handler and the
  service never prints it; its text is left as the names it carries.
\<close>

fun str_exn :: "exn \<Rightarrow> string" where
  "str_exn (HTTPException status_code detail) = show_nat status_code @ '': '' @ detail"
| "str_exn (FileNotFoundError m) = m"
| "str_exn (BinasciiError m) = m"
| "str_exn (ValueError m) = m"
| "str_exn (PyMongoError m) = m"
| "str_exn (TimeoutException m) = m"
| "str_exn (ConnectError m) = m"
| "str_exn (OSError m) = m"
| "str_exn (RequestValidationError names) = concat names"
| "str_exn (OtherException m) = m"

text \<open>
  The status of the response when an exception leaves the endpoint: the status of an
  \<open>HTTPException\<close>, 422 for a \<open>RequestValidationError\<close>, 500 for anything else.
\<close>

fun http_status :: "exn \<Rightarrow> nat" where
  "http_status (HTTPException status_code detail) = status_code"
| "http_status (RequestValidationError names) = 422"
| "http_status e = 500"

section \<open>Credential store and authentication (app/auth.py, app/models.py)\<close>

text \<open>
  A document of the \<^verbatim>\<open>api_keys\<close> collection. The store gives every document an
  \<^verbatim>\<open>_id\<close>, kept here as the text \<^verbatim>\<open>str\<close> prints; times are seconds.
\<close>

record api_key_doc =
  doc_id :: string
  doc_key :: string
  doc_name :: "string option"
  doc_active :: bool
  doc_created_at :: nat
  doc_last_used :: "nat option"

text \<open>
  The collection: its documents in order, and the fault, if any, with which a write
  fails while reads go on: the message of the exception \<^verbatim>\<open>update_one\<close> raises, and
  whether the server has applied the update by then (a reply lost on the network) or not
  (lost primary, read-only replica, missing permission).
\<close>

record collection =
  docs :: "api_key_doc list"
  write_fault :: "(string \<times> bool) option"

definition find_one :: "collection \<Rightarrow> string \<Rightarrow> api_key_doc option" where
  "find_one col api_key = find (\<lambda>d. doc_key d = api_key \<and> doc_active d) (docs col)"

fun update_first :: "('a \<Rightarrow> bool) \<Rightarrow> ('a \<Rightarrow> 'a) \<Rightarrow> 'a list \<Rightarrow> 'a list" where
  "update_first p f [] = []"
| "update_first p f (d # ds) = (if p d then f d # ds else d # update_first p f ds)"

text \<open>
  \<^verbatim>\<open>update_one({"_id": id}, {"$set": {"last_used": now}})\<close>: the exception raised, if
  any, and the collection afterwards.
\<close>

definition touch_last_used :: "collection \<Rightarrow> string \<Rightarrow> nat \<Rightarrow> exn option \<times> collection" where
  "touch_last_used col ident now =
     (let updated = col\<lparr>docs := update_first (\<lambda>d. doc_id d = ident)
                                (\<lambda>d. d\<lparr>doc_last_used := Some now\<rparr>) (docs col)\<rparr>
      in case write_fault col of
           None \<Rightarrow> (None, updated)
         | Some (m, applied) \<Rightarrow> (Some (PyMongoError m), if applied then updated else col))"

definition get_api_key_from_header :: "string option \<Rightarrow> string option" where
  "get_api_key_from_header x_api_key = x_api_key"

text \<open>
  The bearer security scheme, with \<^verbatim>\<open>auto_error=False\<close>, hands over the scheme and the
  credentials of an \<^verbatim>\<open>Authorization: Bearer\<close> header, or nothing.
\<close>

definition get_api_key_from_auth :: "(string \<times> string) option \<Rightarrow> string option" where
  "get_api_key_from_auth credentials =
     (case credentials of Some (scheme, cred) \<Rightarrow> Some cred | None \<Rightarrow> None)"

text \<open>
  \<^verbatim>\<open>validate_api_key\<close>, given the collection and the current time: the result is the
  matched document or the exception raised, with the collection afterwards.
\<close>

definition validate_api_key ::
  "collection \<Rightarrow> nat \<Rightarrow> string option \<Rightarrow> string option \<Rightarrow> string option
     \<Rightarrow> (exn + api_key_doc) \<times> collection" where
  "validate_api_key col now api_key_header api_key_auth api_key_body =
     (let api_key = py_or (py_or api_key_header api_key_auth) api_key_body in
      if \<not> truthy api_key then
        (Inl (HTTPException 401
           ''API key required. Provide it in X-API-Key header, Authorization header, or request body.''),
         col)
      else
        (case find_one col (the api_key) of
           None \<Rightarrow> (Inl (HTTPException 401 ''Invalid or inactive API key''), col)
         | Some key_doc \<Rightarrow>
             (case touch_last_used col (doc_id key_doc) now of
                (Some e, col') \<Rightarrow> (Inl e, col')
              | (None, col') \<Rightarrow> (Inr key_doc, col'))))"

section \<open>Base64 decoding (the standard library's \<^verbatim>\<open>base64.b64decode\<close>)\<close>

text \<open>
  The service calls \<^verbatim>\<open>base64.b64decode(audio_base64)\<close> with its defaults, that is
  without validation. A text with a character above 127 is refused; otherwise the
  decoder reads the text from left to right, skips every character outside the
  alphabet, stops at a padding sign that completes a group of four, and fails only when
  the text ends inside a group. Bytes are numbers below 256.
\<close>

definition b64_value :: "char \<Rightarrow> nat option" where
  "b64_value c = (let n = (of_char c :: nat) in
     if 65 \<le> n \<and> n \<le> 90 then Some (n - 65)
     else if 97 \<le> n \<and> n \<le> 122 then Some (n - 71)
     else if 48 \<le> n \<and> n \<le> 57 then Some (n + 4)
     else if n = 43 then Some 62
     else if n = 47 then Some 63
     else None)"

fun a2b_base64 :: "string \<Rightarrow> nat \<Rightarrow> nat \<Rightarrow> nat \<Rightarrow> nat list \<Rightarrow> exn + nat list" where
  "a2b_base64 [] quad_pos leftchar pads bin_data =
     (if quad_pos \<noteq> 0 then
        (if quad_pos = 1 then
           Inl (BinasciiError (''Invalid base64-encoded string: number of data characters (''
                  @ show_nat (length bin_data div 3 * 4 + 1)
                  @ '') cannot be 1 more than a multiple of 4''))
         else Inl (BinasciiError ''Incorrect padding''))
      else Inr bin_data)"
| "a2b_base64 (this_ch # rest) quad_pos leftchar pads bin_data =
     (if this_ch = CHR ''='' then
        (if quad_pos \<ge> 2 \<and> quad_pos + (pads + 1) \<ge> 4 then Inr bin_data
         else a2b_base64 rest quad_pos leftchar (if quad_pos \<ge> 2 then pads + 1 else pads) bin_data)
      else
        (case b64_value this_ch of
           None \<Rightarrow> a2b_base64 rest quad_pos leftchar pads bin_data
         | Some v \<Rightarrow>
             (if quad_pos = 0 then a2b_base64 rest 1 v 0 bin_data
              else if quad_pos = 1 then
                a2b_base64 rest 2 (v mod 16) 0 (bin_data @ [(leftchar * 4 + v div 16) mod 256])
              else if quad_pos = 2 then
                a2b_base64 rest 3 (v mod 4) 0 (bin_data @ [(leftchar * 16 + v div 4) mod 256])
              else
                a2b_base64 rest 0 0 0 (bin_data @ [(leftchar * 64 + v) mod 256]))))"

definition b64decode :: "string \<Rightarrow> exn + nat list" where
  "b64decode s =
     (if list_ex (\<lambda>c. (of_char c :: nat) \<ge> 128) s
      then Inl (ValueError ''string argument should contain only ASCII characters'')
      else a2b_base64 s 0 0 0 [])"

text \<open>
  Well-formed base64 text (RFC 4648, section 4), for comparison with what the decoder
  accepts: groups of four characters of the alphabet, the last group closed by at most two
  padding signs.
\<close>

definition rfc4648_well_formed :: "string \<Rightarrow> bool" where
  "rfc4648_well_formed s =
     (let body = takeWhile (\<lambda>c. c \<noteq> CHR ''='') s;
          padding = dropWhile (\<lambda>c. c \<noteq> CHR ''='') s
      in length s mod 4 = 0 \<and> list_all (\<lambda>c. b64_value c \<noteq> None) body
         \<and> list_all (\<lambda>c. c = CHR ''='') padding \<and> length padding \<le> 2)"

section \<open>What a request does to its surroundings\<close>

text \<open>
  The calls a request makes to its collaborators are recorded in order: the payload type
  validator, the speech engine on a file path, a POST to the webhook, a back-off sleep in
  seconds.
\<close>

datatype payload =
    ResultPayload string string real string "string option" "nat option"
  | ErrorPayload string string "string option"

datatype event =
    ValidateType "string option" "string option"
  | Transcribe string
  | Post payload
  | Sleep nat

fun is_post :: "event \<Rightarrow> bool" where
  "is_post (Post p) = True"
| "is_post e = False"

fun is_transcribe :: "event \<Rightarrow> bool" where
  "is_transcribe (Transcribe p) = True"
| "is_transcribe e = False"

fun is_validate_type :: "event \<Rightarrow> bool" where
  "is_validate_type (ValidateType c f) = True"
| "is_validate_type e = False"

definition count_posts :: "event list \<Rightarrow> nat" where
  "count_posts tr = length (filter is_post tr)"

fun sleeps_of :: "event list \<Rightarrow> nat list" where
  "sleeps_of [] = []"
| "sleeps_of (Sleep n # tr) = n # sleeps_of tr"
| "sleeps_of (e # tr) = sleeps_of tr"

text \<open>What the webhook endpoint does with one POST: a response status, or the call raises.\<close>

datatype outcome = Response nat | Raises exn

text \<open>What the speech engine returns: the recognised text, the language and the segments.\<close>

record segment =
  seg_end :: "real option"

record whisper_result =
  res_text :: string
  res_language :: "string option"
  res_segments :: "segment list option"

type_synonym file_system = "string \<Rightarrow> nat list option"

type_synonym engine = "file_system \<Rightarrow> string \<Rightarrow> exn + whisper_result"

text \<open>
  The surroundings of a request: the loaded model of the transcription service (if any),
  the outcome of the \<open>n\<close>-th POST to the webhook, the configured number of delivery
  attempts, the directory and random part of the name the next temporary file gets
  (\<^verbatim>\<open>tempfile\<close> names it directory, slash, \<^verbatim>\<open>tmp\<close>, random part, suffix), and the
  fault, if any, with which the operating system refuses to create a file there (full
  disk, missing permission).
\<close>

record env =
  model :: "engine option"
  webhook :: "nat \<Rightarrow> outcome"
  retries :: int
  tmp_dir :: string
  tmp_rand :: string
  tmp_fault :: "string option"

definition temp_file_name :: "env \<Rightarrow> string \<Rightarrow> string" where
  "temp_file_name env suffix = tmp_dir env @ ''/'' @ ''tmp'' @ tmp_rand env @ suffix"

text \<open>
  A file name is at most \<open>NAME_MAX\<close> bytes long (255 on Linux); in UTF-8 a code point
  below 128 takes one byte and one from 128 to 255 takes two.
\<close>

definition NAME_MAX :: nat where
  "NAME_MAX = 255"

definition utf8_length :: "string \<Rightarrow> nat" where
  "utf8_length s = sum_list (map (\<lambda>c. if (of_char c :: nat) < 128 then 1 else 2) s)"

text \<open>
  \<^verbatim>\<open>tempfile.NamedTemporaryFile(delete=False, suffix=suffix)\<close>: the path of the new
  file, or the exception of the underlying \<^verbatim>\<open>os.open\<close>: a NUL character in the name,
  a fault of the operating system, or a name that is too long.
\<close>

definition named_temporary_file :: "env \<Rightarrow> string \<Rightarrow> exn + string" where
  "named_temporary_file env suffix =
     (if CHR 0x00 \<in> set suffix then Inl (ValueError ''embedded null byte'')
      else
        (case tmp_fault env of
           Some m \<Rightarrow> Inl (OSError m)
         | None \<Rightarrow>
             if utf8_length (''tmp'' @ tmp_rand env @ suffix) > NAME_MAX
             then Inl (OSError (''[Errno 36] File name too long: '' @ [CHR 0x27]
                                  @ temp_file_name env suffix @ [CHR 0x27]))
             else Inr (temp_file_name env suffix)))"

section \<open>Transcription service (app/services/transcription.py)\<close>

definition ffmpeg_message :: string where
  "ffmpeg_message = ''ffmpeg is required for audio transcription but is not installed. Please install ffmpeg: brew install ffmpeg (macOS) or apt-get install ffmpeg (Linux)''"

definition duration_of :: "whisper_result \<Rightarrow> real" where
  "duration_of result =
     (let segments = (case res_segments result of None \<Rightarrow> [] | Some xs \<Rightarrow> xs) in
      if segments \<noteq> [] then (case seg_end (last segments) of None \<Rightarrow> 0 | Some e \<Rightarrow> e)
      else 0)"

definition transcribe_audio_file ::
  "env \<Rightarrow> file_system \<Rightarrow> string \<Rightarrow> event list
     \<Rightarrow> (exn + string \<times> string \<times> real) \<times> event list" where
  "transcribe_audio_file env fs audio_file_path tr =
     (case model env of
        None \<Rightarrow> (Inl (HTTPException 500 ''Speech recognition model not loaded''), tr)
      | Some m \<Rightarrow>
          (case m fs audio_file_path of
             Inr result \<Rightarrow>
               (Inr (py_strip (res_text result),
                     (case res_language result of None \<Rightarrow> ''pt'' | Some l \<Rightarrow> l),
                     duration_of result),
                tr @ [Transcribe audio_file_path])
           | Inl (FileNotFoundError msg) \<Rightarrow>
               (if py_in ''ffmpeg'' (py_lower msg)
                then Inl (HTTPException 500 ffmpeg_message)
                else Inl (HTTPException 400 (''Failed to transcribe audio: '' @ msg)),
                tr @ [Transcribe audio_file_path])
           | Inl e \<Rightarrow>
               (let error_msg = str_exn e;
                    error_msg = (if py_in ''ffmpeg'' (py_lower error_msg) then ffmpeg_message
                                 else error_msg)
                in Inl (HTTPException 400 (''Failed to transcribe audio: '' @ error_msg)),
                tr @ [Transcribe audio_file_path])))"

text \<open>
  \<^verbatim>\<open>transcribe_base64_audio\<close>: everything from the decoding to the transcription of the
  temporary file sits in one \<^verbatim>\<open>try\<close>, whose handler turns any exception, the
  \<open>HTTPException\<close> of \<open>transcribe_audio_file\<close> included, into a 400.
\<close>

definition transcribe_base64_audio ::
  "env \<Rightarrow> string \<Rightarrow> event list \<Rightarrow> (exn + string \<times> string \<times> real) \<times> event list" where
  "transcribe_base64_audio env audio_base64 tr =
     (let (r, tr') =
        (case b64decode audio_base64 of
           Inl e \<Rightarrow> (Inl e, tr)
         | Inr audio_data \<Rightarrow>
             (case named_temporary_file env ''.wav'' of
                Inl e \<Rightarrow> (Inl e, tr)
              | Inr temp_file_path \<Rightarrow>
                  transcribe_audio_file env (Map.empty(temp_file_path \<mapsto> audio_data))
                    temp_file_path tr))
      in case r of
           Inl e \<Rightarrow>
             (Inl (HTTPException 400 (''Failed to process base64 audio: '' @ str_exn e)), tr')
         | Inr result \<Rightarrow> (Inr result, tr'))"

definition allowed_extensions :: "string list" where
  "allowed_extensions = [''.mp3'', ''.wav'', ''.m4a'', ''.mp4'', ''.ogg'', ''.flac'']"

definition validate_audio_file :: "file_system \<Rightarrow> string \<Rightarrow> bool" where
  "validate_audio_file fs file_path =
     (case fs file_path of
        None \<Rightarrow> False
      | Some content \<Rightarrow>
          if length content > MAX_FILE_SIZE then False
          else py_lower (snd (splitext file_path)) \<in> set allowed_extensions)"

section \<open>Webhook delivery (app/services/webhook.py)\<close>

text \<open>
  The \<^verbatim>\<open>try\<close> block of one delivery attempt: the POST raises, or its status is
  compared with 200, 201 and 202.
\<close>

definition post_attempt :: "outcome \<Rightarrow> exn + bool" where
  "post_attempt r =
     (case r of Raises e \<Rightarrow> Inl e | Response status_code \<Rightarrow> Inr (status_code \<in> set [200, 201, 202]))"

text \<open>
  The three \<^verbatim>\<open>except\<close> clauses of the attempt: time-out, connection error, and any
  other exception; each one only prints.
\<close>

definition attempt_caught :: "exn + bool \<Rightarrow> exn + bool" where
  "attempt_caught a =
     (case a of
        Inr b \<Rightarrow> Inr b
      | Inl (TimeoutException m) \<Rightarrow> Inr False
      | Inl (ConnectError m) \<Rightarrow> Inr False
      | Inl e \<Rightarrow> Inr False)"

text \<open>
  The loop \<^verbatim>\<open>for attempt in range(self.retries)\<close> over the attempts still to make:
  \<open>Inr True\<close> is the \<^verbatim>\<open>return True\<close> inside the loop, \<open>Inr False\<close> the
  \<^verbatim>\<open>return False\<close> after it, \<open>Inl\<close> an exception that leaves the function.
\<close>

fun send_attempts ::
  "env \<Rightarrow> payload \<Rightarrow> nat list \<Rightarrow> event list \<Rightarrow> (exn + bool) \<times> event list" where
  "send_attempts env p [] tr = (Inr False, tr)"
| "send_attempts env p (attempt # rest) tr =
     (let r = webhook env (count_posts tr);
          tr1 = tr @ [Post p]
      in case attempt_caught (post_attempt r) of
           Inl e \<Rightarrow> (Inl e, tr1)
         | Inr True \<Rightarrow> (Inr True, tr1)
         | Inr False \<Rightarrow>
             send_attempts env p rest
               (if int attempt < retries env - 1 then tr1 @ [Sleep (2 ^ attempt)] else tr1))"

definition send_transcription_result ::
  "env \<Rightarrow> string \<Rightarrow> string \<Rightarrow> real \<Rightarrow> string \<Rightarrow> string option \<Rightarrow> nat option \<Rightarrow> event list
     \<Rightarrow> (exn + bool) \<times> event list" where
  "send_transcription_result env text language duration api_key_name original_filename
       audio_size tr =
     send_attempts env
       (ResultPayload text language duration api_key_name original_filename audio_size)
       [0 ..< nat (retries env)] tr"

definition send_error_notification ::
  "env \<Rightarrow> string \<Rightarrow> string \<Rightarrow> string option \<Rightarrow> event list \<Rightarrow> bool \<times> event list" where
  "send_error_notification env error_message api_key_name original_filename tr =
     (let r = webhook env (count_posts tr);
          tr1 = tr @ [Post (ErrorPayload error_message api_key_name original_filename)]
      in case post_attempt r of
           Inr b \<Rightarrow> (b, tr1)
         | Inl e \<Rightarrow> (False, tr1))"

section \<open>The transcription endpoint (app/main.py)\<close>

text \<open>
  An uploaded file: its name, declared content type and the bytes \<^verbatim>\<open>read\<close> returns.
  Its attribute \<^verbatim>\<open>size\<close>, here \<open>file_size\<close>, is the number of bytes the framework's
  parser has written to it, so it is the length of the content.
\<close>

record upload_file =
  filename :: "string option"
  content_type :: "string option"
  content :: "nat list"

definition file_size :: "upload_file \<Rightarrow> nat option" where
  "file_size audio = Some (length (content audio))"

record transcription_request =
  audio_base64 :: "string option"
  api_key :: "string option"

text \<open>
  The JSON object of a successful response; each field is named after its key, with the
  prefix \<open>resp\<close>.
\<close>

record transcription_response =
  resp_message :: string
  resp_status :: string
  resp_text :: string
  resp_language :: string
  resp_duration :: real
  resp_webhook_delivered :: bool
  resp_transcription_id :: string

text \<open>\<^verbatim>\<open>authenticated_key.get("name", "unknown")\<close>\<close>

definition key_name :: "api_key_doc \<Rightarrow> string" where
  "key_name authenticated_key =
     (case doc_name authenticated_key of None \<Rightarrow> ''unknown'' | Some n \<Rightarrow> n)"

definition unsupported_detail :: "string option \<Rightarrow> string \<Rightarrow> string" where
  "unsupported_detail ct original_filename =
     (let mime_from_ext = get_mime_from_extension original_filename;
          error_detail = ''Unsupported audio type. Received: content_type='' @ [CHR 0x27]
             @ str_opt ct @ [CHR 0x27] @ '', filename='' @ [CHR 0x27] @ original_filename
             @ [CHR 0x27];
          error_detail = (if truthy mime_from_ext
             then error_detail @ '', detected_mime_from_extension='' @ [CHR 0x27]
                    @ the mime_from_ext @ [CHR 0x27]
             else error_detail)
      in error_detail @ ''. Allowed types: '' @ str_list ALLOWED_AUDIO_TYPES)"

text \<open>
  The file branch of the handler, entered with a non-empty file name: type validation,
  size check on the size of the upload, then the temporary file with the second check and
  the transcription. An exception of \<^verbatim>\<open>NamedTemporaryFile\<close> leaves the branch as it
  is. The temporary file is the only file the request sees.
\<close>

definition handle_file ::
  "env \<Rightarrow> upload_file \<Rightarrow> string \<Rightarrow> api_key_doc \<Rightarrow> event list
     \<Rightarrow> (exn + string \<times> string \<times> real) \<times> event list" where
  "handle_file env audio original_filename authenticated_key tr =
     (let tr1 = tr @ [ValidateType (content_type audio) (Some original_filename)] in
      if \<not> validate_audio_type (content_type audio) (Some original_filename) then
        (let (sent, tr2) = send_error_notification env
               (''Unsupported audio type: '' @ str_opt (content_type audio))
               (key_name authenticated_key) (Some original_filename) tr1
         in (Inl (HTTPException 400 (unsupported_detail (content_type audio) original_filename)),
             tr2))
      else if (case file_size audio of None \<Rightarrow> False | Some n \<Rightarrow> n \<noteq> 0 \<and> n > MAX_FILE_SIZE) then
        (let (sent, tr2) = send_error_notification env
               (''File too large: '' @ show_nat (the (file_size audio)) @ '' bytes'')
               (key_name authenticated_key) (Some original_filename) tr1
         in (Inl (HTTPException 400
                (''File too large. Maximum size: '' @ show_nat MAX_FILE_SIZE @ '' bytes'')),
             tr2))
      else
        (case named_temporary_file env (snd (splitext original_filename)) of
           Inl e \<Rightarrow> (Inl e, tr1)
         | Inr temp_file_path \<Rightarrow>
             (let fs = Map.empty(temp_file_path \<mapsto> content audio)
              in if \<not> validate_audio_file fs temp_file_path then
                   (let (sent, tr2) = send_error_notification env
                          ''Invalid audio file format or size''
                          (key_name authenticated_key) (Some original_filename) tr1
                    in (Inl (HTTPException 400 ''Invalid audio file format or size''), tr2))
                 else transcribe_audio_file env fs temp_file_path tr1)))"

text \<open>
  The payload branches of the handler: a file with a non-empty name, else a body with a
  non-empty base64 field, else no payload. The first component is the file name the
  handler has noted by then.
\<close>

definition handle_payload ::
  "env \<Rightarrow> upload_file option \<Rightarrow> transcription_request option \<Rightarrow> api_key_doc \<Rightarrow> event list
     \<Rightarrow> (exn + string \<times> string \<times> real) \<times> event list" where
  "handle_payload env audio request_data authenticated_key tr =
     (if audio \<noteq> None \<and> truthy (filename (the audio)) then
        handle_file env (the audio) (the (filename (the audio))) authenticated_key tr
      else if request_data \<noteq> None \<and> truthy (audio_base64 (the request_data)) then
        transcribe_base64_audio env (the (audio_base64 (the request_data))) tr
      else
        (let (sent, tr1) = send_error_notification env ''No audio data provided''
               (key_name authenticated_key) None tr
         in (Inl (HTTPException 400 ''Either audio file or audio_base64 must be provided''), tr1)))"

definition original_filename_of :: "upload_file option \<Rightarrow> string option" where
  "original_filename_of audio =
     (if audio \<noteq> None \<and> truthy (filename (the audio)) then filename (the audio) else None)"

definition audio_size_of :: "upload_file option \<Rightarrow> nat option" where
  "audio_size_of audio =
     (if audio \<noteq> None \<and> truthy (filename (the audio)) then file_size (the audio) else None)"

definition make_transcription_id :: "api_key_doc \<Rightarrow> real \<Rightarrow> string" where
  "make_transcription_id authenticated_key duration =
     ''trans_'' @ doc_id authenticated_key @ ''_''
       @ show_int (if duration \<noteq> 0 then py_int duration else 0)"

text \<open>
  \<^verbatim>\<open>transcribe_audio\<close>, the handler of \<^verbatim>\<open>POST /transcribe\<close>, with the credential its
  dependency has resolved. The form field \<open>api_key_file\<close> is a parameter the body never
  reads. An \<open>HTTPException\<close> passes the outer handler unchanged; any other exception is
  reported to the webhook and replaced by a 500.
\<close>

definition transcribe_audio ::
  "env \<Rightarrow> upload_file option \<Rightarrow> string option \<Rightarrow> transcription_request option \<Rightarrow> api_key_doc
     \<Rightarrow> (exn + transcription_response) \<times> event list" where
  "transcribe_audio env audio api_key_file request_data authenticated_key =
     (case handle_payload env audio request_data authenticated_key [] of
        (Inl (HTTPException status_code detail), tr) \<Rightarrow> (Inl (HTTPException status_code detail), tr)
      | (Inl e, tr) \<Rightarrow>
          (let (sent, tr1) = send_error_notification env
                 (''Internal server error: '' @ str_exn e)
                 (key_name authenticated_key) (original_filename_of audio) tr
           in (Inl (HTTPException 500 ''Internal server error during transcription''), tr1))
      | (Inr (text, language, duration), tr) \<Rightarrow>
          (let (sent, tr1) = send_transcription_result env text language duration
                 (key_name authenticated_key) (original_filename_of audio) (audio_size_of audio) tr;
               webhook_success = (case sent of Inl e \<Rightarrow> False | Inr b \<Rightarrow> b)
           in (Inr \<lparr> resp_message = ''Transcription completed'',
                     resp_status = ''success'',
                     resp_text = text,
                     resp_language = language,
                     resp_duration = duration,
                     resp_webhook_delivered = webhook_success,
                     resp_transcription_id = make_transcription_id authenticated_key duration \<rparr>,
               tr1)))"

text \<open>
  A request as it reaches the framework: the two credential headers, the query parameter
  \<open>api_key_body\<close>, and either a JSON body or the parts of a form named \<open>audio\<close>,
  \<open>api_key_file\<close> and \<open>request_data\<close>. A part of a multipart form that carries a
  file name (empty or not) is a file; a part without one is a plain text field.
\<close>

datatype form_part = FilePart upload_file | FieldPart string

record http_request =
  x_api_key :: "string option"
  authorization :: "(string \<times> string) option"
  query_api_key_body :: "string option"
  form_audio :: "form_part option"
  form_api_key_file :: "string option"
  form_request_data :: "string option"
  json_body :: "transcription_request option"

text \<open>
  The dependency \<open>validate_api_key\<close> is resolved by the framework: its first two
  parameters are dependencies on the \<^verbatim>\<open>X-API-Key\<close> header and on the bearer scheme; its
  third, \<^verbatim>\<open>api_key_body: Optional[str] = None\<close>, carries no marker and no call site
  passes it, so the framework binds it to the query parameter of that name. Neither the
  \<open>api_key\<close> field of the body nor the form field \<open>api_key_file\<close> is handed to it.
\<close>

definition authenticate ::
  "collection \<Rightarrow> nat \<Rightarrow> http_request \<Rightarrow> (exn + api_key_doc) \<times> collection" where
  "authenticate col now req =
     validate_api_key col now
       (get_api_key_from_header (x_api_key req))
       (get_api_key_from_auth (authorization req))
       (query_api_key_body req)"

text \<open>
  The body parameters of the endpoint. Because \<open>audio\<close> is declared with
  \<^verbatim>\<open>File\<close> and \<open>api_key_file\<close> with \<^verbatim>\<open>Form\<close>, the framework reads every body as a
  form, and \<open>request_data\<close> becomes one more field of that form. A JSON body is then an
  empty form: all three parameters take their default \<^verbatim>\<open>None\<close>. In a form, a file
  part binds \<open>audio\<close>, an empty text field counts as absent, any other text field named
  \<open>audio\<close> fails to bind, and so does any field named \<open>request_data\<close>, since a text is
  not a \<open>TranscriptionRequest\<close>. The result is the names of the parameters that failed
  to bind, or the three arguments of the handler.
\<close>

definition bind_body ::
  "http_request
     \<Rightarrow> string list + upload_file option \<times> string option \<times> transcription_request option" where
  "bind_body req =
     (if json_body req \<noteq> None then Inr (None, None, None)
      else
        (let errors =
               (case form_audio req of
                  Some (FieldPart s) \<Rightarrow> if s = [] then [] else [''audio'']
                | _ \<Rightarrow> [])
               @ (case form_request_data req of Some s \<Rightarrow> [''request_data''] | None \<Rightarrow> [])
         in if errors \<noteq> [] then Inl errors
            else Inr ((case form_audio req of Some (FilePart u) \<Rightarrow> Some u | _ \<Rightarrow> None),
                      (if truthy (form_api_key_file req) then form_api_key_file req else None),
                      None)))"

text \<open>
  \<^verbatim>\<open>POST /transcribe\<close>: the framework resolves the dependency first, and an exception
  of \<open>validate_api_key\<close> ends the request; then parameters that failed to bind end it
  with a \<open>RequestValidationError\<close>; otherwise the handler runs.
\<close>

definition post_transcribe ::
  "env \<Rightarrow> collection \<Rightarrow> nat \<Rightarrow> http_request
     \<Rightarrow> (exn + transcription_response) \<times> event list \<times> collection" where
  "post_transcribe env col now req =
     (case authenticate col now req of
        (Inl e, col') \<Rightarrow> (Inl e, [], col')
      | (Inr authenticated_key, col') \<Rightarrow>
          (case bind_body req of
             Inl errors \<Rightarrow> (Inl (RequestValidationError errors), [], col')
           | Inr (audio, api_key_file, request_data) \<Rightarrow>
               (let (r, tr) = transcribe_audio env audio api_key_file request_data
                                authenticated_key
                in (r, tr, col'))))"

section \<open>Notions used to state the properties\<close>

text \<open>The credential a request presents: the local \<^verbatim>\<open>api_key\<close> of \<open>validate_api_key\<close>.\<close>

definition presented :: "string option \<Rightarrow> string option \<Rightarrow> string option \<Rightarrow> string option" where
  "presented h a b = py_or (py_or h a) b"

text \<open>A key the store holds only in deactivated documents, and a key the store does not hold.\<close>

definition deactivated :: "collection \<Rightarrow> string \<Rightarrow> bool" where
  "deactivated col k =
     (list_ex (\<lambda>d. doc_key d = k) (docs col)
      \<and> list_all (\<lambda>d. doc_key d = k \<longrightarrow> \<not> doc_active d) (docs col))"

definition unknown_key :: "collection \<Rightarrow> string \<Rightarrow> bool" where
  "unknown_key col k = list_all (\<lambda>d. doc_key d \<noteq> k) (docs col)"

text \<open>Concrete surroundings for the examples.\<close>

definition example_doc :: api_key_doc where
  "example_doc = \<lparr> doc_id = ''650f1c2ab7e4d1a2b3c4d5e6'', doc_key = ''k1'',
      doc_name = Some ''client'', doc_active = True, doc_created_at = 1000,
      doc_last_used = None \<rparr>"

definition retired_doc :: api_key_doc where
  "retired_doc = \<lparr> doc_id = ''650f1c2ab7e4d1a2b3c4d5e7'', doc_key = ''k0'',
      doc_name = Some ''former client'', doc_active = False, doc_created_at = 900,
      doc_last_used = Some 950 \<rparr>"

definition example_store :: collection where
  "example_store = \<lparr> docs = [retired_doc, example_doc], write_fault = None \<rparr>"

text \<open>
  Two stores whose writes fail: one refuses the write, the other applies it and loses the
  reply.
\<close>

definition faulty_store :: collection where
  "faulty_store =
     \<lparr> docs = [retired_doc, example_doc], write_fault = Some (''not primary'', False) \<rparr>"

definition lost_reply_store :: collection where
  "lost_reply_store =
     \<lparr> docs = [retired_doc, example_doc], write_fault = Some (''connection closed'', True) \<rparr>"

text \<open>
  An attempt is delivered when the webhook answers 200, 201 or 202. One failed attempt
  out of \<open>n\<close> leaves a POST in the record, followed by a sleep unless it was the last.
\<close>

definition delivered :: "outcome \<Rightarrow> bool" where
  "delivered r = (r = Response 200 \<or> r = Response 201 \<or> r = Response 202)"

definition failed_step :: "payload \<Rightarrow> nat \<Rightarrow> nat \<Rightarrow> event list" where
  "failed_step p n j = Post p # (if Suc j < n then [Sleep (2 ^ j)] else [])"

definition example_engine :: engine where
  "example_engine fs p = Inr \<lparr> res_text = '' ola mundo '', res_language = Some ''pt'',
      res_segments = Some [\<lparr> seg_end = Some 1 \<rparr>, \<lparr> seg_end = Some (5 / 2) \<rparr>] \<rparr>"

definition env_webhook_down :: env where
  "env_webhook_down = \<lparr> model = Some example_engine, webhook = (\<lambda>n. Response 503),
      retries = 3, tmp_dir = ''/tmp'', tmp_rand = ''ab12cd34'',
      tmp_fault = None \<rparr>"

definition env_webhook_up :: env where
  "env_webhook_up = \<lparr> model = Some example_engine, webhook = (\<lambda>n. Response 202),
      retries = 3, tmp_dir = ''/tmp'', tmp_rand = ''ab12cd34'',
      tmp_fault = None \<rparr>"

definition env_webhook_flaky :: env where
  "env_webhook_flaky = \<lparr> model = Some example_engine,
      webhook = (\<lambda>n. if n = 0 then Raises (TimeoutException ''timed out'')
                      else if n = 1 then Raises (ConnectError ''connection refused'')
                      else Response 200),
      retries = 3, tmp_dir = ''/tmp'', tmp_rand = ''ab12cd34'',
      tmp_fault = None \<rparr>"

text \<open>
  Two requests with the same valid key \<open>k1\<close>: one carries it only in the \<open>api_key\<close>
  field of the JSON body, the other also in the \<^verbatim>\<open>X-API-Key\<close> header.
\<close>

definition body_key_request :: http_request where
  "body_key_request = \<lparr> x_api_key = None, authorization = None, query_api_key_body = None,
      form_audio = None, form_api_key_file = None, form_request_data = None,
      json_body = Some \<lparr> audio_base64 = Some ''aGVsbG8='', api_key = Some ''k1'' \<rparr> \<rparr>"

definition header_key_request :: http_request where
  "header_key_request = body_key_request \<lparr> x_api_key := Some ''k1'' \<rparr>"

text \<open>
  The random part of a temporary file name is drawn from the lower-case letters, the
  digits and the underscore.
\<close>

definition tmp_rand_ok :: "string \<Rightarrow> bool" where
  "tmp_rand_ok r = list_all (\<lambda>c. c \<in> set ''abcdefghijklmnopqrstuvwxyz0123456789_'') r"

text \<open>
  Uploads for the examples: one of them a byte above the maximum size, one with an
  extension of 300 letters, one with an empty file name.
\<close>

definition oversized_content :: "nat list" where
  "oversized_content = replicate (Suc MAX_FILE_SIZE) 0"

definition sample_upload :: upload_file where
  "sample_upload = \<lparr> filename = Some ''sample.mp3'', content_type = Some ''audio/mpeg'',
      content = [73, 68, 51] \<rparr>"

definition aac_upload :: upload_file where
  "aac_upload = \<lparr> filename = Some ''voice.aac'', content_type = Some ''audio/mpeg'',
      content = [73, 68, 51] \<rparr>"

definition oversized_aac_upload :: upload_file where
  "oversized_aac_upload = \<lparr> filename = Some ''voice.aac'', content_type = Some ''audio/mpeg'',
      content = oversized_content \<rparr>"

definition long_extension_upload :: upload_file where
  "long_extension_upload = \<lparr> filename = Some (''a.'' @ replicate 300 CHR ''x''),
      content_type = Some ''audio/mpeg'', content = [73, 68, 51] \<rparr>"

definition nameless_upload :: upload_file where
  "nameless_upload = \<lparr> filename = Some [], content_type = Some ''audio/mpeg'',
      content = [73, 68, 51] \<rparr>"

definition sample_response :: transcription_response where
  "sample_response = \<lparr> resp_message = ''Transcription completed'', resp_status = ''success'',
      resp_text = ''ola mundo'', resp_language = ''pt'', resp_duration = 5 / 2,
      resp_webhook_delivered = True,
      resp_transcription_id = ''trans_650f1c2ab7e4d1a2b3c4d5e6_2'' \<rparr>"

text \<open>
  The message of the \<open>FileNotFoundError\<close> the speech engine raises on a host without
  \<^verbatim>\<open>ffmpeg\<close>, and surroundings with such an engine.
\<close>

definition ffmpeg_not_found :: string where
  "ffmpeg_not_found =
     ''[Errno 2] No such file or directory: '' @ [CHR 0x27] @ ''ffmpeg'' @ [CHR 0x27]"

definition env_no_ffmpeg :: env where
  "env_no_ffmpeg = \<lparr> model = Some (\<lambda>fs p. Inl (FileNotFoundError ffmpeg_not_found)),
      webhook = (\<lambda>n. Response 202), retries = 3, tmp_dir = ''/tmp'', tmp_rand = ''ab12cd34'',
      tmp_fault = None \<rparr>"

text \<open>
  A message mentions \<^verbatim>\<open>ffmpeg\<close> when its lowercased text contains the word. The
  speech engine runs \<^verbatim>\<open>ffmpeg\<close> to read the audio and, when that fails, raises a
  \<^verbatim>\<open>RuntimeError\<close> with what \<^verbatim>\<open>ffmpeg\<close> printed, its banner first; the surroundings
  \<open>env_bad_audio\<close> have such an engine.
\<close>

definition mentions_ffmpeg :: "string \<Rightarrow> bool" where
  "mentions_ffmpeg msg = py_in ''ffmpeg'' (py_lower msg)"

definition load_audio_failed :: string where
  "load_audio_failed =
     ''Failed to load audio: ffmpeg version 4.4.2 Copyright (c) 2000-2021 the FFmpeg developers: Invalid data found when processing input''"

definition env_bad_audio :: env where
  "env_bad_audio = \<lparr> model = Some (\<lambda>fs p. Inl (OtherException load_audio_failed)),
      webhook = (\<lambda>n. Response 202), retries = 3, tmp_dir = ''/tmp'', tmp_rand = ''ab12cd34'',
      tmp_fault = None \<rparr>"

text \<open>
  Two requests with the valid key \<open>k1\<close> in the \<^verbatim>\<open>X-API-Key\<close> header: one with a JSON
  body whose \<open>audio_base64\<close> is not base64 text, the other a multipart form whose part
  \<open>audio\<close> carries no file name.
\<close>

definition malformed_base64_request :: http_request where
  "malformed_base64_request = \<lparr> x_api_key = Some ''k1'', authorization = None,
      query_api_key_body = None, form_audio = None, form_api_key_file = None,
      form_request_data = None,
      json_body = Some \<lparr> audio_base64 = Some ''not base64!'', api_key = None \<rparr> \<rparr>"

definition part_without_filename_request :: http_request where
  "part_without_filename_request = \<lparr> x_api_key = Some ''k1'', authorization = None,
      query_api_key_body = None, form_audio = Some (FieldPart ''RIFF''),
      form_api_key_file = None, form_request_data = None, json_body = None \<rparr>"

definition empty_filename_request :: http_request where
  "empty_filename_request = \<lparr> x_api_key = Some ''k1'', authorization = None,
      query_api_key_body = None, form_audio = Some (FilePart nameless_upload),
      form_api_key_file = None, form_request_data = None, json_body = None \<rparr>"

text \<open>
  A multipart form with the valid key \<open>k1\<close> in the \<^verbatim>\<open>X-API-Key\<close> header and the
  file \<open>sample_upload\<close> in its part \<open>audio\<close>.
\<close>

definition sample_upload_request :: http_request where
  "sample_upload_request = \<lparr> x_api_key = Some ''k1'', authorization = None,
      query_api_key_body = None, form_audio = Some (FilePart sample_upload),
      form_api_key_file = None, form_request_data = None, json_body = None \<rparr>"

text \<open>
  The exceptions the decoder can raise, and the characters of a text that belong to the
  base64 alphabet.
\<close>

definition decode_errors :: "exn set" where
  "decode_errors =
     {ValueError ''string argument should contain only ASCII characters'',
      BinasciiError ''Incorrect padding''}
     \<union> {BinasciiError (''Invalid base64-encoded string: number of data characters (''
                  @ show_nat n @ '') cannot be 1 more than a multiple of 4'') | n. True}"

definition data_chars :: "string \<Rightarrow> string" where
  "data_chars s = filter (\<lambda>c. b64_value c \<noteq> None) s"

section \<open>Authentication: properties\<close>

lemma find_one_None_iff:
  "find_one col k = None \<longleftrightarrow> list_all (\<lambda>d. \<not> (doc_key d = k \<and> doc_active d)) (docs col)"
  by (auto simp: find_one_def find_None_iff list_all_iff)

lemma find_one_deactivated: "deactivated col k \<Longrightarrow> find_one col k = None"
  by (auto simp: find_one_None_iff deactivated_def list_all_iff)

lemma find_one_unknown: "unknown_key col k \<Longrightarrow> find_one col k = None"
  by (auto simp: find_one_None_iff unknown_key_def list_all_iff)

lemma validate_api_key_no_match:
  assumes "truthy (presented h a b)" and "find_one col (the (presented h a b)) = None"
  shows "validate_api_key col now h a b
           = (Inl (HTTPException 401 ''Invalid or inactive API key''), col)"
  using assms by (simp add: validate_api_key_def presented_def Let_def)

text \<open>
  Claim C7. Take two requests that each present a credential, the first a key the store
  holds only as deactivated, the second a key the store does not hold. The authenticator
  gives the same outcome for both: the exception with status 401 and the detail
  \<^verbatim>\<open>Invalid or inactive API key\<close>, and an unchanged store.
\<close>

theorem inactive_key_same_as_unknown_key:
  assumes "truthy (presented h1 a1 b1)" and "truthy (presented h2 a2 b2)"
    and "deactivated col (the (presented h1 a1 b1))"
    and "unknown_key col (the (presented h2 a2 b2))"
  shows "validate_api_key col now1 h1 a1 b1 = validate_api_key col now2 h2 a2 b2
       \<and> validate_api_key col now1 h1 a1 b1
            = (Inl (HTTPException 401 ''Invalid or inactive API key''), col)"
  using assms
  by (simp add: validate_api_key_no_match find_one_deactivated find_one_unknown)

theorem inactive_key_same_as_unknown_key_witness:
  "truthy (presented (Some ''k0'') None None)
   \<and> truthy (presented None (Some ''zz'') (Some ''k1''))
   \<and> deactivated example_store (the (presented (Some ''k0'') None None))
   \<and> unknown_key example_store (the (presented None (Some ''zz'') (Some ''k1'')))
   \<and> validate_api_key example_store 2000 (Some ''k0'') None None
       = validate_api_key example_store 2001 None (Some ''zz'') (Some ''k1'')
   \<and> validate_api_key example_store 2000 (Some ''k0'') None None
       = (Inl (HTTPException 401 ''Invalid or inactive API key''), example_store)"
proof -
  have h1: "truthy (presented (Some ''k0'') None None)"
    by (simp add: presented_def py_or_def truthy_def)
  have h2: "truthy (presented None (Some ''zz'') (Some ''k1''))"
    by (simp add: presented_def py_or_def truthy_def)
  have h3: "deactivated example_store (the (presented (Some ''k0'') None None))"
    by (simp add: presented_def py_or_def truthy_def deactivated_def example_store_def
        retired_doc_def example_doc_def)
  have h4: "unknown_key example_store (the (presented None (Some ''zz'') (Some ''k1'')))"
    by (simp add: presented_def py_or_def truthy_def unknown_key_def example_store_def
        retired_doc_def example_doc_def)
  from inactive_key_same_as_unknown_key [OF h1 h2 h3 h4, of 2000 2001] h1 h2 h3 h4
  show ?thesis by blast
qed

section \<open>Webhook delivery: properties\<close>

lemma count_posts_append [simp]: "count_posts (xs @ ys) = count_posts xs + count_posts ys"
  by (simp add: count_posts_def)

lemma count_posts_simps [simp]:
  "count_posts [] = 0"
  "count_posts (Post p # tr) = Suc (count_posts tr)"
  "count_posts (Sleep n # tr) = count_posts tr"
  by (simp_all add: count_posts_def)

lemma attempt_caught_post_attempt: "attempt_caught (post_attempt r) = Inr (delivered r)"
  by (cases r) (auto simp: attempt_caught_def post_attempt_def delivered_def split: exn.splits)

lemma count_posts_failed_step [simp]: "count_posts (failed_step p n j) = 1"
  by (simp add: failed_step_def)

lemma send_attempts_step_fail:
  assumes "\<not> delivered (webhook env (count_posts tr))" and "i < n" and "n = nat (retries env)"
  shows "send_attempts env p (i # rest) tr = send_attempts env p rest (tr @ failed_step p n i)"
proof -
  have "(int i < retries env - 1) = (Suc i < n)"
    using assms(2,3) by auto
  then show ?thesis
    using assms(1) by (simp add: Let_def attempt_caught_post_attempt failed_step_def)
qed

lemma send_attempts_step_ok:
  assumes "delivered (webhook env (count_posts tr))"
  shows "send_attempts env p (i # rest) tr = (Inr True, tr @ [Post p])"
  using assms by (simp add: Let_def attempt_caught_post_attempt)

lemma send_attempts_all_fail:
  assumes "n = nat (retries env)"
    and "count_posts tr = c + i"
    and "\<forall>j. i \<le> j \<and> j < n \<longrightarrow> \<not> delivered (webhook env (c + j))"
  shows "send_attempts env p [i ..< n] tr
           = (Inr False, tr @ concat (map (failed_step p n) [i ..< n]))"
  using assms(2,3)
proof (induction "n - i" arbitrary: i tr)
  case 0
  then show ?case by simp
next
  case (Suc d)
  then have lt: "i < n" by simp
  have nd: "\<not> delivered (webhook env (count_posts tr))"
    using Suc.prems lt by simp
  have d: "d = n - Suc i" using Suc.hyps(2) by simp
  have cnt: "count_posts (tr @ failed_step p n i) = c + Suc i"
    using Suc.prems(1) by simp
  have rest: "\<forall>j. Suc i \<le> j \<and> j < n \<longrightarrow> \<not> delivered (webhook env (c + j))"
    using Suc.prems(2) by simp
  have "send_attempts env p [i ..< n] tr = send_attempts env p [Suc i ..< n] (tr @ failed_step p n i)"
    using lt nd assms(1) by (simp add: upt_conv_Cons send_attempts_step_fail del: send_attempts.simps)
  also have "\<dots> = (Inr False, (tr @ failed_step p n i) @ concat (map (failed_step p n) [Suc i ..< n]))"
    using Suc.hyps(1) [OF d cnt rest] .
  also have "\<dots> = (Inr False, tr @ concat (map (failed_step p n) [i ..< n]))"
    using lt by (simp add: upt_conv_Cons)
  finally show ?case .
qed

lemma send_attempts_first_success:
  assumes "n = nat (retries env)" and "k < n"
    and "delivered (webhook env (c + k))"
    and "count_posts tr = c + i" and "i \<le> k"
    and "\<forall>j. i \<le> j \<and> j < k \<longrightarrow> \<not> delivered (webhook env (c + j))"
  shows "send_attempts env p [i ..< n] tr
           = (Inr True, tr @ concat (map (failed_step p n) [i ..< k]) @ [Post p])"
  using assms(4,5,6)
proof (induction "k - i" arbitrary: i tr)
  case 0
  then have ik: "i = k" by simp
  with 0 assms(3) have "delivered (webhook env (count_posts tr))" by simp
  then show ?case
    using ik assms(2) by (simp add: upt_conv_Cons send_attempts_step_ok del: send_attempts.simps)
next
  case (Suc d)
  then have lt: "i < k" by simp
  then have ltn: "i < n" using assms(2) by simp
  have nd: "\<not> delivered (webhook env (count_posts tr))"
    using Suc.prems lt by simp
  have d: "d = k - Suc i" using Suc.hyps(2) by simp
  have le: "Suc i \<le> k" using lt by simp
  have cnt: "count_posts (tr @ failed_step p n i) = c + Suc i"
    using Suc.prems(1) by simp
  have rest: "\<forall>j. Suc i \<le> j \<and> j < k \<longrightarrow> \<not> delivered (webhook env (c + j))"
    using Suc.prems(3) by simp
  have "send_attempts env p [i ..< n] tr = send_attempts env p [Suc i ..< n] (tr @ failed_step p n i)"
    using ltn nd assms(1) by (simp add: upt_conv_Cons send_attempts_step_fail del: send_attempts.simps)
  also have "\<dots> = (Inr True, (tr @ failed_step p n i) @ concat (map (failed_step p n) [Suc i ..< k]) @ [Post p])"
    using Suc.hyps(1) [OF d cnt le rest] .
  also have "\<dots> = (Inr True, tr @ concat (map (failed_step p n) [i ..< k]) @ [Post p])"
    using lt by (simp add: upt_conv_Cons)
  finally show ?case .
qed

lemma sleeps_of_append [simp]: "sleeps_of (xs @ ys) = sleeps_of xs @ sleeps_of ys"
  by (induction xs rule: sleeps_of.induct) simp_all

lemma sleeps_of_failed_steps:
  "k \<le> n \<Longrightarrow> sleeps_of (concat (map (failed_step p n) [0 ..< k])) = map (\<lambda>j. 2 ^ j) [0 ..< min k (n - 1)]"
proof (induction k)
  case 0
  then show ?case by simp
next
  case (Suc k)
  then show ?case
    by (cases "Suc k < n") (auto simp: failed_step_def min_def)
qed

lemma count_posts_failed_steps:
  "count_posts (concat (map (failed_step p n) [i ..< k])) = k - i"
  by (induction k) (auto simp: Suc_diff_le)

lemma sum_pow2: "sum_list (map (\<lambda>j. 2 ^ j) [0 ..< m]) = (2::nat) ^ m - 1"
  by (induction m) auto


lemma send_result_all_fail:
  assumes "\<forall>j < nat (retries env). \<not> delivered (webhook env j)"
  shows "send_transcription_result env t l d nm fn sz []
           = (Inr False, concat (map (failed_step (ResultPayload t l d nm fn sz) (nat (retries env)))
                                  [0 ..< nat (retries env)]))"
  unfolding send_transcription_result_def
  using send_attempts_all_fail [of "nat (retries env)" env "[]" 0 0] assms by simp

lemma send_result_first_success:
  assumes "k < nat (retries env)" and "delivered (webhook env k)"
    and "\<forall>j < k. \<not> delivered (webhook env j)"
  shows "send_transcription_result env t l d nm fn sz []
           = (Inr True, concat (map (failed_step (ResultPayload t l d nm fn sz) (nat (retries env)))
                                  [0 ..< k]) @ [Post (ResultPayload t l d nm fn sz)])"
  unfolding send_transcription_result_def
  using send_attempts_first_success [of "nat (retries env)" env k 0 "[]" 0] assms by simp

lemma send_result_cases:
  obtains (fail) "\<forall>j < nat (retries env). \<not> delivered (webhook env j)"
  | (ok) k where "k < nat (retries env)" "delivered (webhook env k)" "\<forall>j < k. \<not> delivered (webhook env j)"
proof (cases "\<forall>j < nat (retries env). \<not> delivered (webhook env j)")
  case True
  then show ?thesis by (rule fail)
next
  case False
  then obtain k0 where k0: "k0 < nat (retries env)" "delivered (webhook env k0)" by blast
  define k where "k = (LEAST k. delivered (webhook env k))"
  have 1: "delivered (webhook env k)" unfolding k_def using k0(2) by (rule LeastI)
  have "k \<le> k0" unfolding k_def using k0(2) by (rule Least_le)
  then have 2: "k < nat (retries env)" using k0(1) by simp
  have 3: "\<forall>j < k. \<not> delivered (webhook env j)"
    unfolding k_def using not_less_Least by blast
  from 2 1 3 show ?thesis by (rule ok)
qed

lemma send_result_never_raises:
  "\<exists>b. fst (send_transcription_result env t l d nm fn sz []) = Inr b"
  by (rule send_result_cases [of env]) (auto simp add: send_result_all_fail send_result_first_success)

lemma send_result_at_most_retries:
  "count_posts (snd (send_transcription_result env t l d nm fn sz [])) \<le> nat (retries env)"
  by (rule send_result_cases [of env])
     (simp_all add: send_result_all_fail send_result_first_success count_posts_failed_steps)

lemma send_result_true_iff:
  "fst (send_transcription_result env t l d nm fn sz []) = Inr True
     \<longleftrightarrow> (\<exists>k < nat (retries env). delivered (webhook env k))"
  by (rule send_result_cases [of env])
     (auto simp add: send_result_all_fail send_result_first_success)

text \<open>
  Claim C4. Result delivery, started with an empty record, on the \<open>n\<close> attempts the
  configuration allows (\<open>n\<close> is \<open>retries\<close>, 3 by default): it POSTs at most \<open>n\<close> times
  and always returns true or false, never an exception; an attempt counts as a success
  exactly when the webhook answers 200, 201 or 202, whatever else it answers or raises counts
  as a failure; the result is true exactly when one of the \<open>n\<close> attempts can succeed.
  When all attempts fail the record is POST, sleep 1, POST, sleep 2, ..., POST, with a sleep
  of \<open>2 ^ j\<close> seconds after the failed attempt \<open>j\<close> and none after the last, and the
  result is false; with three attempts the sleeps are 1 and 2, three seconds in all. When
  attempt \<open>k\<close> is the first to succeed, the record ends with its POST and the result is
  true; a success at the first attempt leaves one POST and no sleep.
\<close>

theorem webhook_delivery_retries:
  "count_posts (snd (send_transcription_result env t l d nm fn sz [])) \<le> nat (retries env)
   \<and> (\<exists>b. fst (send_transcription_result env t l d nm fn sz []) = Inr b)
   \<and> attempt_caught (post_attempt r) = Inr (delivered r)
   \<and> (fst (send_transcription_result env t l d nm fn sz []) = Inr True
        \<longleftrightarrow> (\<exists>k < nat (retries env). delivered (webhook env k)))
   \<and> ((\<forall>j < nat (retries env). \<not> delivered (webhook env j)) \<longrightarrow>
        send_transcription_result env t l d nm fn sz []
          = (Inr False, concat (map (failed_step (ResultPayload t l d nm fn sz) (nat (retries env)))
                                 [0 ..< nat (retries env)]))
        \<and> sleeps_of (snd (send_transcription_result env t l d nm fn sz []))
            = map (\<lambda>j. 2 ^ j) [0 ..< nat (retries env) - 1])
   \<and> (k < nat (retries env) \<and> delivered (webhook env k) \<and> (\<forall>j < k. \<not> delivered (webhook env j)) \<longrightarrow>
        send_transcription_result env t l d nm fn sz []
          = (Inr True, concat (map (failed_step (ResultPayload t l d nm fn sz) (nat (retries env)))
                                [0 ..< k]) @ [Post (ResultPayload t l d nm fn sz)])
        \<and> sleeps_of (snd (send_transcription_result env t l d nm fn sz []))
            = map (\<lambda>j. 2 ^ j) [0 ..< k])
   \<and> (retries env = WEBHOOK_RETRIES_default \<and> (\<forall>j < 3. \<not> delivered (webhook env j)) \<longrightarrow>
        fst (send_transcription_result env t l d nm fn sz []) = Inr False
        \<and> sleeps_of (snd (send_transcription_result env t l d nm fn sz [])) = [1, 2]
        \<and> sum_list (sleeps_of (snd (send_transcription_result env t l d nm fn sz []))) = 3)
   \<and> (0 < retries env \<and> delivered (webhook env 0) \<longrightarrow>
        send_transcription_result env t l d nm fn sz []
          = (Inr True, [Post (ResultPayload t l d nm fn sz)])
        \<and> sleeps_of (snd (send_transcription_result env t l d nm fn sz [])) = [])"
proof -
  let ?run = "send_transcription_result env t l d nm fn sz []"
  let ?n = "nat (retries env)"
  let ?p = "ResultPayload t l d nm fn sz"
  have a: "count_posts (snd ?run) \<le> ?n" by (rule send_result_at_most_retries)
  have b: "\<exists>b. fst ?run = Inr b" by (rule send_result_never_raises)
  have c: "attempt_caught (post_attempt r) = Inr (delivered r)" by (rule attempt_caught_post_attempt)
  have d: "fst ?run = Inr True \<longleftrightarrow> (\<exists>k < ?n. delivered (webhook env k))" by (rule send_result_true_iff)
  have e: "(\<forall>j < ?n. \<not> delivered (webhook env j)) \<longrightarrow>
        ?run = (Inr False, concat (map (failed_step ?p ?n) [0 ..< ?n]))
        \<and> sleeps_of (snd ?run) = map (\<lambda>j. 2 ^ j) [0 ..< ?n - 1]"
    by (simp add: send_result_all_fail sleeps_of_failed_steps)
  have f: "k < ?n \<and> delivered (webhook env k) \<and> (\<forall>j < k. \<not> delivered (webhook env j)) \<longrightarrow>
        ?run = (Inr True, concat (map (failed_step ?p ?n) [0 ..< k]) @ [Post ?p])
        \<and> sleeps_of (snd ?run) = map (\<lambda>j. 2 ^ j) [0 ..< k]"
    by (auto simp add: send_result_first_success sleeps_of_failed_steps min_def)
  have g: "retries env = WEBHOOK_RETRIES_default \<and> (\<forall>j < 3. \<not> delivered (webhook env j)) \<longrightarrow>
        fst ?run = Inr False \<and> sleeps_of (snd ?run) = [1, 2] \<and> sum_list (sleeps_of (snd ?run)) = 3"
  proof
    assume h: "retries env = WEBHOOK_RETRIES_default \<and> (\<forall>j < 3. \<not> delivered (webhook env j))"
    then have n: "?n = 3" by (simp add: WEBHOOK_RETRIES_default_def)
    with h have "\<forall>j < ?n. \<not> delivered (webhook env j)" by simp
    then have "?run = (Inr False, concat (map (failed_step ?p ?n) [0 ..< ?n]))"
      by (rule send_result_all_fail)
    then have "?run = (Inr False, concat (map (failed_step ?p 3) [0 ..< 3]))"
      using n by simp
    then show "fst ?run = Inr False \<and> sleeps_of (snd ?run) = [1, 2] \<and> sum_list (sleeps_of (snd ?run)) = 3"
      by (simp add: failed_step_def upt_conv_Cons)
  qed
  have h: "0 < retries env \<and> delivered (webhook env 0) \<longrightarrow>
        ?run = (Inr True, [Post ?p]) \<and> sleeps_of (snd ?run) = []"
    using send_result_first_success [of 0 env] by simp
  from a b c d e f g h show ?thesis by blast
qed


lemma delivered_simps:
  "delivered (Response sc) = (sc = 200 \<or> sc = 201 \<or> sc = 202)"
  "delivered (Raises e) = False"
  by (simp_all add: delivered_def)

theorem webhook_delivery_retries_witness:
  "send_transcription_result env_webhook_down ''ola'' ''pt'' 2 ''client'' None None []
     = (Inr False, [Post (ResultPayload ''ola'' ''pt'' 2 ''client'' None None), Sleep 1,
                    Post (ResultPayload ''ola'' ''pt'' 2 ''client'' None None), Sleep 2,
                    Post (ResultPayload ''ola'' ''pt'' 2 ''client'' None None)])
   \<and> sum_list (sleeps_of (snd (send_transcription_result env_webhook_down ''ola'' ''pt'' 2
                                  ''client'' None None []))) = 3
   \<and> send_transcription_result env_webhook_up ''ola'' ''pt'' 2 ''client'' None None []
     = (Inr True, [Post (ResultPayload ''ola'' ''pt'' 2 ''client'' None None)])
   \<and> send_transcription_result env_webhook_flaky ''ola'' ''pt'' 2 ''client'' None None []
     = (Inr True, [Post (ResultPayload ''ola'' ''pt'' 2 ''client'' None None), Sleep 1,
                   Post (ResultPayload ''ola'' ''pt'' 2 ''client'' None None), Sleep 2,
                   Post (ResultPayload ''ola'' ''pt'' 2 ''client'' None None)])"
proof -
  have down: "retries env_webhook_down = WEBHOOK_RETRIES_default
      \<and> (\<forall>j < 3. \<not> delivered (webhook env_webhook_down j))"
    by (simp add: env_webhook_down_def WEBHOOK_RETRIES_default_def delivered_simps)
  have down': "\<forall>j < nat (retries env_webhook_down). \<not> delivered (webhook env_webhook_down j)"
    by (simp add: env_webhook_down_def delivered_simps)
  have up: "0 < retries env_webhook_up \<and> delivered (webhook env_webhook_up 0)"
    by (simp add: env_webhook_up_def delivered_simps)
  have flaky: "2 < nat (retries env_webhook_flaky) \<and> delivered (webhook env_webhook_flaky 2)
      \<and> (\<forall>j < 2. \<not> delivered (webhook env_webhook_flaky j))"
    by (simp add: env_webhook_flaky_def delivered_simps)
  have n: "nat (retries env_webhook_down) = 3" "nat (retries env_webhook_flaky) = 3"
    by (simp_all add: env_webhook_down_def env_webhook_flaky_def)
  note w1 = webhook_delivery_retries [of env_webhook_down "''ola''" "''pt''" 2 "''client''" None None]
  note w2 = webhook_delivery_retries [of env_webhook_up "''ola''" "''pt''" 2 "''client''" None None]
  note w3 = webhook_delivery_retries [of env_webhook_flaky "''ola''" "''pt''" 2 "''client''" None None _ 2]
  from w1 down down' have
    "send_transcription_result env_webhook_down ''ola'' ''pt'' 2 ''client'' None None []
       = (Inr False, concat (map (failed_step (ResultPayload ''ola'' ''pt'' 2 ''client'' None None)
             (nat (retries env_webhook_down))) [0 ..< nat (retries env_webhook_down)]))"
    and s: "sum_list (sleeps_of (snd (send_transcription_result env_webhook_down ''ola'' ''pt'' 2
                                  ''client'' None None []))) = 3"
    by blast+
  then have 1: "send_transcription_result env_webhook_down ''ola'' ''pt'' 2 ''client'' None None []
     = (Inr False, [Post (ResultPayload ''ola'' ''pt'' 2 ''client'' None None), Sleep 1,
                    Post (ResultPayload ''ola'' ''pt'' 2 ''client'' None None), Sleep 2,
                    Post (ResultPayload ''ola'' ''pt'' 2 ''client'' None None)])"
    by (simp add: n failed_step_def upt_conv_Cons)
  from w2 up have 2: "send_transcription_result env_webhook_up ''ola'' ''pt'' 2 ''client'' None None []
     = (Inr True, [Post (ResultPayload ''ola'' ''pt'' 2 ''client'' None None)])"
    by blast
  from w3 flaky have
    "send_transcription_result env_webhook_flaky ''ola'' ''pt'' 2 ''client'' None None []
       = (Inr True, concat (map (failed_step (ResultPayload ''ola'' ''pt'' 2 ''client'' None None)
             (nat (retries env_webhook_flaky))) [0 ..< 2])
           @ [Post (ResultPayload ''ola'' ''pt'' 2 ''client'' None None)])"
    by blast
  then have 3: "send_transcription_result env_webhook_flaky ''ola'' ''pt'' 2 ''client'' None None []
     = (Inr True, [Post (ResultPayload ''ola'' ''pt'' 2 ''client'' None None), Sleep 1,
                   Post (ResultPayload ''ola'' ''pt'' 2 ''client'' None None), Sleep 2,
                   Post (ResultPayload ''ola'' ''pt'' 2 ''client'' None None)])"
    by (simp add: n failed_step_def upt_conv_Cons)
  from 1 s 2 3 show ?thesis by blast
qed

section \<open>Authentication: credential sources and the bookkeeping write\<close>

lemma presented_priority:
  "presented h a b = (if truthy h then h else if truthy a then a else b)"
  by (simp add: presented_def py_or_def)

lemma validate_api_key_no_credential:
  "\<not> truthy (presented h a b) \<Longrightarrow>
   validate_api_key col now h a b
     = (Inl (HTTPException 401
          ''API key required. Provide it in X-API-Key header, Authorization header, or request body.''),
        col)"
  by (simp add: validate_api_key_def presented_def Let_def)

lemma validate_api_key_match:
  assumes "truthy (presented h a b)" and "find_one col (the (presented h a b)) = Some key_doc"
  shows "fst (validate_api_key col now h a b)
           = (case write_fault col of
                None \<Rightarrow> Inr key_doc
              | Some (m, applied) \<Rightarrow> Inl (PyMongoError m))"
  using assms
  by (simp add: validate_api_key_def presented_def Let_def touch_last_used_def
      split: option.splits prod.splits)

text \<open>
  Claim C1. The function \<open>validate_api_key\<close> takes the first non-empty of its three
  arguments (\<open>presented_priority\<close>) and raises 401 when all are empty
  (\<open>validate_api_key_no_credential\<close>), but the third argument never receives the
  \<open>api_key\<close> field of the body. A request whose only credential is a valid, active key
  in that field is refused with 401 and the detail \<^verbatim>\<open>API key required\<close>, before any
  payload handling; the same key in the header authenticates.
\<close>

theorem body_api_key_is_not_consulted:
  "find_one example_store (the (api_key (the (json_body body_key_request)))) = Some example_doc
   \<and> post_transcribe env example_store now body_key_request
       = (Inl (HTTPException 401
            ''API key required. Provide it in X-API-Key header, Authorization header, or request body.''),
          [], example_store)
   \<and> fst (authenticate example_store now header_key_request) = Inr example_doc"
  by (simp add: post_transcribe_def authenticate_def validate_api_key_def body_key_request_def
      header_key_request_def get_api_key_from_header_def get_api_key_from_auth_def py_or_def
      truthy_def find_one_def example_store_def example_doc_def retired_doc_def
      touch_last_used_def)

text \<open>
  Claim C2, as stated, fails: with a valid, active key and a store that refuses the write
  of \<open>last_used\<close>, \<open>validate_api_key\<close> raises the store's exception instead of
  returning the credential.
\<close>

theorem store_write_failure_fails_authentication:
  "find_one faulty_store ''k1'' = Some example_doc
   \<and> fst (validate_api_key faulty_store 2000 (Some ''k1'') None None)
        = Inl (PyMongoError ''not primary'')"
  by (simp add: validate_api_key_def py_or_def truthy_def
      find_one_def faulty_store_def example_doc_def retired_doc_def touch_last_used_def)

text \<open>
  Claim C2, amended. For a request that presents a valid, active credential,
  authentication returns the matched document when the write of \<open>last_used\<close> succeeds;
  when that write fails, the failure is not absorbed: \<open>validate_api_key\<close> raises the
  store's exception and returns no credential.
\<close>

theorem authentication_depends_on_store_write:
  assumes "truthy (presented h a b)" and "find_one col (the (presented h a b)) = Some key_doc"
  shows "(write_fault col = None \<longrightarrow> fst (validate_api_key col now h a b) = Inr key_doc)
       \<and> (\<forall>m applied. write_fault col = Some (m, applied) \<longrightarrow>
             fst (validate_api_key col now h a b) = Inl (PyMongoError m))"
  using validate_api_key_match [OF assms] by simp

theorem authentication_depends_on_store_write_witness:
  "truthy (presented (Some ''k1'') None None)
   \<and> find_one example_store (the (presented (Some ''k1'') None None)) = Some example_doc
   \<and> find_one faulty_store (the (presented (Some ''k1'') None None)) = Some example_doc
   \<and> find_one lost_reply_store (the (presented (Some ''k1'') None None)) = Some example_doc
   \<and> fst (validate_api_key example_store 2000 (Some ''k1'') None None) = Inr example_doc
   \<and> fst (validate_api_key faulty_store 2000 (Some ''k1'') None None)
       = Inl (PyMongoError ''not primary'')
   \<and> fst (validate_api_key lost_reply_store 2000 (Some ''k1'') None None)
       = Inl (PyMongoError ''connection closed'')"
proof -
  have h1: "truthy (presented (Some ''k1'') None None)"
    by (simp add: presented_def py_or_def truthy_def)
  have h2: "find_one example_store (the (presented (Some ''k1'') None None)) = Some example_doc"
    by (simp add: presented_def py_or_def truthy_def find_one_def example_store_def
        example_doc_def retired_doc_def)
  have h3: "find_one faulty_store (the (presented (Some ''k1'') None None)) = Some example_doc"
    by (simp add: presented_def py_or_def truthy_def find_one_def faulty_store_def
        example_doc_def retired_doc_def)
  have h4: "find_one lost_reply_store (the (presented (Some ''k1'') None None)) = Some example_doc"
    by (simp add: presented_def py_or_def truthy_def find_one_def lost_reply_store_def
        example_doc_def retired_doc_def)
  have w1: "write_fault example_store = None" by (simp add: example_store_def)
  have w2: "write_fault faulty_store = Some (''not primary'', False)"
    by (simp add: faulty_store_def)
  have w3: "write_fault lost_reply_store = Some (''connection closed'', True)"
    by (simp add: lost_reply_store_def)
  from authentication_depends_on_store_write [OF h1 h2, of 2000] w1
  have 1: "fst (validate_api_key example_store 2000 (Some ''k1'') None None) = Inr example_doc"
    by blast
  from authentication_depends_on_store_write [OF h1 h3, of 2000] w2
  have 2: "fst (validate_api_key faulty_store 2000 (Some ''k1'') None None)
       = Inl (PyMongoError ''not primary'')"
    by blast
  from authentication_depends_on_store_write [OF h1 h4, of 2000] w3
  have 3: "fst (validate_api_key lost_reply_store 2000 (Some ''k1'') None None)
       = Inl (PyMongoError ''connection closed'')"
    by blast
  from h1 h2 h3 h4 1 2 3 show ?thesis by blast
qed

section \<open>Payload type validation: properties\<close>

lemma is_upper_bit5: "is_upper (Char b0 b1 b2 b3 b4 b5 b6 b7) \<Longrightarrow> \<not> b5"
  by (cases b0; cases b1; cases b2; cases b3; cases b4; cases b5; cases b6; cases b7;
      simp add: is_upper_def)

lemma lower_char_of_char: "is_upper c \<Longrightarrow> (of_char (lower_char c) :: nat) = of_char c + 32"
  by (cases c) (auto simp: lower_char_def dest: is_upper_bit5)

lemma is_space_lower_char: "is_space (lower_char c) = is_space c"
proof (cases "is_upper c")
  case True
  then have "(of_char (lower_char c) :: nat) = of_char c + 32"
    by (rule lower_char_of_char)
  with True show ?thesis
    by (auto simp: is_space_def is_upper_def Let_def)
next
  case False
  then show ?thesis by (simp add: lower_char_def)
qed

lemma py_strip_padded:
  assumes "list_all is_space l" and "list_all is_space r"
    and "c \<noteq> []" and "\<not> is_space (hd c)" and "\<not> is_space (last c)"
  shows "py_strip (l @ c @ r) = c"
proof -
  have "dropWhile is_space (l @ c @ r) = dropWhile is_space (c @ r)"
    using assms(1) by (simp add: dropWhile_append2 list_all_iff)
  also have "\<dots> = c @ r"
    using assms(3,4) by (cases c) simp_all
  finally have 1: "dropWhile is_space (l @ c @ r) = c @ r" .
  have "dropWhile is_space (rev r @ rev c) = dropWhile is_space (rev c)"
    using assms(2) by (intro dropWhile_append2) (simp add: list_all_iff)
  also have "\<dots> = rev c"
    using assms(3,5) by (cases c rule: rev_cases) simp_all
  finally show ?thesis
    by (simp add: py_strip_def 1)
qed

lemma allowed_types_shape:
  "m \<in> set ALLOWED_AUDIO_TYPES \<Longrightarrow> m \<noteq> [] \<and> \<not> is_space (hd m) \<and> \<not> is_space (last m)"
  by (auto simp: ALLOWED_AUDIO_TYPES_def is_space_def)

lemma py_lower_shape:
  assumes "py_lower c = m" and "m \<noteq> []" and "\<not> is_space (hd m)" and "\<not> is_space (last m)"
  shows "c \<noteq> [] \<and> \<not> is_space (hd c) \<and> \<not> is_space (last c)"
proof -
  have ne: "c \<noteq> []" using assms(1,2) by (auto simp: py_lower_def)
  have "hd m = lower_char (hd c)" using assms(1) ne by (auto simp: py_lower_def hd_map)
  moreover have "last m = lower_char (last c)" using assms(1) ne by (auto simp: py_lower_def last_map)
  ultimately show ?thesis using assms(3,4) ne by (simp add: is_space_lower_char)
qed

lemma map_of_EXTENSION_TO_MIME: "map_of EXTENSION_TO_MIME ext = spec_extension_table ext"
  by (simp add: EXTENSION_TO_MIME_def spec_extension_table_def)

lemma spec_extension_table_nonempty: "spec_extension_table ext = Some m \<Longrightarrow> m \<noteq> []"
  by (auto simp: spec_extension_table_def split: if_splits)

lemma splitext_Nil: "splitext [] = ([], [])"
  by (simp add: splitext_def rfind_def)

lemma step1_eq:
  "(truthy (normalize_content_type ct) \<and> the (normalize_content_type ct) \<in> set ALLOWED_AUDIO_TYPES)
     = spec_step1 ct"
proof (cases ct)
  case None
  then show ?thesis
    by (simp add: normalize_content_type_def truthy_def spec_step1_def py_strip_def py_lower_def)
next
  case (Some c)
  show ?thesis
  proof (cases "c = []")
    case True
    with Some show ?thesis
      by (simp add: normalize_content_type_def truthy_def spec_step1_def py_strip_def py_lower_def)
  next
    case False
    with Some show ?thesis
      by (simp add: normalize_content_type_def truthy_def spec_step1_def Let_def)
  qed
qed

lemma step2_eq:
  "(truthy fn \<and> truthy (get_mime_from_extension (the fn))
      \<and> the (get_mime_from_extension (the fn)) \<in> set ALLOWED_AUDIO_TYPES)
     = spec_step2 fn"
proof (cases fn)
  case None
  then show ?thesis
    by (simp add: truthy_def spec_step2_def splitext_Nil py_lower_def spec_extension_table_def)
next
  case (Some f)
  show ?thesis
  proof (cases "f = []")
    case True
    with Some show ?thesis
      by (simp add: truthy_def spec_step2_def splitext_Nil py_lower_def spec_extension_table_def)
  next
    case False
    with Some show ?thesis
      by (auto simp: truthy_def spec_step2_def get_mime_from_extension_def
            map_of_EXTENSION_TO_MIME split: option.splits dest: spec_extension_table_nonempty)
  qed
qed

lemma validate_audio_type_steps:
  "validate_audio_type ct fn = (spec_step1 ct \<or> spec_step2 fn)"
proof -
  have "validate_audio_type ct fn =
      ((truthy (normalize_content_type ct) \<and> the (normalize_content_type ct) \<in> set ALLOWED_AUDIO_TYPES)
       \<or> (truthy fn \<and> truthy (get_mime_from_extension (the fn))
      \<and> the (get_mime_from_extension (the fn)) \<in> set ALLOWED_AUDIO_TYPES))"
    by (simp add: validate_audio_type_def Let_def)
  also have "\<dots> = (spec_step1 ct \<or> spec_step2 fn)"
    by (simp only: step1_eq step2_eq)
  finally show ?thesis .
qed

lemma spec_step1_padded:
  assumes "list_all is_space l" and "list_all is_space r" and "py_lower c \<in> set ALLOWED_AUDIO_TYPES"
  shows "spec_step1 (Some (l @ c @ r))"
proof -
  from allowed_types_shape [OF assms(3)]
  have "c \<noteq> [] \<and> \<not> is_space (hd c) \<and> \<not> is_space (last c)"
    by (intro py_lower_shape [of c "py_lower c"]) simp_all
  then have "py_strip (l @ c @ r) = c"
    using assms(1,2) by (simp add: py_strip_padded)
  then show ?thesis
    using assms(3) allowed_types_shape [OF assms(3)] by (simp add: spec_step1_def)
qed

text \<open>
  Claim C3. The payload type validator is a function of the declared content type and
  the file name, and it computes the three steps of the specification, the first match
  deciding: accept when the trimmed, lowercased content type is a non-empty member of the
  allow-list; else accept when the lowercased extension of the file name maps through the
  six-entry table to a member of the allow-list; else reject. So a content type accepted
  by step 1 is accepted with any file name; in particular a member of the allow-list
  written in any case between any white space is accepted; and a content type outside the
  allow-list with an extension outside the table is rejected.
\<close>

theorem validate_audio_type_three_steps:
  "validate_audio_type ct fn = spec_validate_audio_type ct fn
   \<and> (spec_step1 ct \<longrightarrow> validate_audio_type ct fn')
   \<and> (list_all is_space l \<and> list_all is_space r \<and> py_lower c \<in> set ALLOWED_AUDIO_TYPES
        \<longrightarrow> validate_audio_type (Some (l @ c @ r)) fn')
   \<and> (py_lower (py_strip t) \<notin> set ALLOWED_AUDIO_TYPES
        \<and> spec_extension_table (py_lower (snd (splitext f))) = None
        \<longrightarrow> \<not> validate_audio_type (Some t) (Some f))"
proof -
  have 1: "validate_audio_type ct fn = spec_validate_audio_type ct fn"
    by (simp add: validate_audio_type_steps spec_validate_audio_type_def)
  have 2: "spec_step1 ct \<longrightarrow> validate_audio_type ct fn'"
    by (simp add: validate_audio_type_steps)
  have 3: "list_all is_space l \<and> list_all is_space r \<and> py_lower c \<in> set ALLOWED_AUDIO_TYPES
        \<longrightarrow> validate_audio_type (Some (l @ c @ r)) fn'"
    by (simp add: validate_audio_type_steps spec_step1_padded)
  have 4: "py_lower (py_strip t) \<notin> set ALLOWED_AUDIO_TYPES
        \<and> spec_extension_table (py_lower (snd (splitext f))) = None
        \<longrightarrow> \<not> validate_audio_type (Some t) (Some f)"
    by (simp add: validate_audio_type_steps spec_step1_def spec_step2_def)
  from 1 2 3 4 show ?thesis by blast
qed

theorem validate_audio_type_three_steps_witness:
  "list_all is_space ''  '' \<and> list_all is_space '' '' \<and> py_lower ''Audio/MPEG'' \<in> set ALLOWED_AUDIO_TYPES
   \<and> validate_audio_type (Some ''  Audio/MPEG '') (Some ''notes.txt'')
   \<and> py_lower (py_strip ''application/pdf'') \<notin> set ALLOWED_AUDIO_TYPES
   \<and> spec_extension_table (py_lower (snd (splitext ''notes.txt''))) = None
   \<and> \<not> validate_audio_type (Some ''application/pdf'') (Some ''notes.txt'')"
proof -
  have h1: "list_all is_space ''  '' \<and> list_all is_space '' '' \<and> py_lower ''Audio/MPEG'' \<in> set ALLOWED_AUDIO_TYPES"
    by code_simp
  have h2: "py_lower (py_strip ''application/pdf'') \<notin> set ALLOWED_AUDIO_TYPES
        \<and> spec_extension_table (py_lower (snd (splitext ''notes.txt''))) = None"
    by code_simp
  note w = validate_audio_type_three_steps [of None None "Some ''notes.txt''" "''  ''" "'' ''" "''Audio/MPEG''"
                  "''application/pdf''" "''notes.txt''"]
  from w h1 have "validate_audio_type (Some (''  '' @ ''Audio/MPEG'' @ '' '')) (Some ''notes.txt'')"
    by blast
  then have a: "validate_audio_type (Some ''  Audio/MPEG '') (Some ''notes.txt'')"
    by simp
  from w h2 have b: "\<not> validate_audio_type (Some ''application/pdf'') (Some ''notes.txt'')"
    by blast
  from h1 h2 a b show ?thesis by blast
qed

section \<open>File names and temporary files\<close>

lemma rfind_notin: "c \<notin> set p \<Longrightarrow> rfind c p = - 1"
  by (simp add: rfind_def)

lemma rfind_last: "c \<notin> set ys \<Longrightarrow> rfind c (xs @ c # ys) = int (length xs)"
proof -
  assume n: "c \<notin> set ys"
  have "takeWhile (\<lambda>x. x \<noteq> c) (rev ys @ c # rev xs) = takeWhile (\<lambda>x. x \<noteq> c) (rev ys)"
    by (rule takeWhile_tail) simp
  also have "\<dots> = rev ys"
    using n by (auto simp: takeWhile_eq_all_conv)
  finally show ?thesis by (simp add: rfind_def)
qed

lemma rfind_append_notin: "c \<notin> set ys \<Longrightarrow> rfind c (xs @ ys) = rfind c xs"
proof (cases "c \<in> set xs")
  case True
  assume n: "c \<notin> set ys"
  from True obtain as bs where xs: "xs = as @ c # bs" and bs: "c \<notin> set bs"
    by (auto dest: split_list_last)
  have "rfind c (as @ c # (bs @ ys)) = int (length as)"
    using n bs by (intro rfind_last) simp
  moreover have "rfind c (as @ c # bs) = int (length as)"
    using bs by (rule rfind_last)
  ultimately show ?thesis using xs by simp
next
  case False
  assume "c \<notin> set ys"
  with False show ?thesis by (simp add: rfind_notin)
qed

lemma rfind_ge_minus1: "rfind c p \<ge> - 1"
proof -
  have "length (takeWhile (\<lambda>x. x \<noteq> c) (rev p)) \<le> length (rev p)"
    by (rule length_takeWhile_le)
  then show ?thesis by (auto simp: rfind_def)
qed

lemma rfind_less: "rfind c xs < int (length xs)"
proof (cases "c \<in> set xs")
  case True
  then obtain as bs where xs: "xs = as @ c # bs" and bs: "c \<notin> set bs"
    by (auto dest: split_list_last)
  then show ?thesis by (simp add: rfind_last)
next
  case False
  then show ?thesis by (simp add: rfind_notin)
qed

lemma rfind_ge: "c \<in> set ys \<Longrightarrow> rfind c (xs @ ys) \<ge> int (length xs)"
proof -
  assume "c \<in> set ys"
  then obtain as bs where ys: "ys = as @ c # bs" and bs: "c \<notin> set bs"
    by (auto dest: split_list_last)
  have "rfind c ((xs @ as) @ c # bs) = int (length (xs @ as))"
    using bs by (rule rfind_last)
  then show ?thesis using ys by simp
qed

text \<open>The extension \<open>splitext\<close> returns is empty, or a dot followed by neither dot nor slash.\<close>

lemma splitext_ext_cases:
  obtains (none) "snd (splitext p) = []"
  | (ext) e where "snd (splitext p) = CHR ''.'' # e" "CHR ''.'' \<notin> set e" "CHR ''/'' \<notin> set e"
proof (cases "snd (splitext p) = []")
  case True
  then show ?thesis by (rule none)
next
  case False
  define cond where "cond = (rfind CHR ''.'' p > rfind CHR ''/'' p \<and>
        list_ex (\<lambda>x. x \<noteq> CHR ''.'')
          (take (nat (rfind CHR ''.'' p - (rfind CHR ''/'' p + 1)))
             (drop (nat (rfind CHR ''/'' p + 1)) p)))"
  have sp: "splitext p = (if cond then (take (nat (rfind CHR ''.'' p)) p, drop (nat (rfind CHR ''.'' p)) p)
                          else (p, []))"
    by (simp only: splitext_def Let_def cond_def)
  have c: cond
  proof (rule ccontr)
    assume "\<not> cond"
    then have "snd (splitext p) = []" by (simp only: sp if_False snd_conv)
    with False show False by simp
  qed
  then have gt: "rfind CHR ''.'' p > rfind CHR ''/'' p" by (simp only: cond_def)
  have sn: "snd (splitext p) = drop (nat (rfind CHR ''.'' p)) p"
    using c by (simp only: sp if_True snd_conv)
  have "CHR ''.'' \<in> set p"
  proof (rule ccontr)
    assume "CHR ''.'' \<notin> set p"
    then have "rfind CHR ''.'' p = - 1" by (rule rfind_notin)
    moreover have "rfind CHR ''/'' p \<ge> - 1" by (rule rfind_ge_minus1)
    ultimately show False using gt by simp
  qed
  then obtain xs ys where p: "p = xs @ CHR ''.'' # ys" and ys: "CHR ''.'' \<notin> set ys"
    by (auto dest: split_list_last)
  have d: "rfind CHR ''.'' p = int (length xs)" using p ys by (simp add: rfind_last)
  have e: "snd (splitext p) = CHR ''.'' # ys" using sn d p by simp
  have "CHR ''/'' \<notin> set ys"
  proof
    assume "CHR ''/'' \<in> set ys"
    then have "rfind CHR ''/'' ((xs @ [CHR ''.'']) @ ys) \<ge> int (length (xs @ [CHR ''.'']))"
      by (rule rfind_ge)
    then show False using gt d p by simp
  qed
  with e ys show ?thesis by (rule ext)
qed

lemma drop_length_append: "drop (length xs) (xs @ ys) = ys"
  by simp

lemma take_length_append: "take (length xs) (xs @ ys) = xs"
  by simp

lemma tmp_rand_ok_chars:
  assumes "tmp_rand_ok r"
  shows "CHR ''.'' \<notin> set r \<and> CHR ''/'' \<notin> set r"
proof -
  have a: "CHR ''.'' \<notin> set ''abcdefghijklmnopqrstuvwxyz0123456789_''"
    and b: "CHR ''/'' \<notin> set ''abcdefghijklmnopqrstuvwxyz0123456789_''"
    by simp_all
  from assms have "\<forall>c \<in> set r. c \<in> set ''abcdefghijklmnopqrstuvwxyz0123456789_''"
    by (simp only: tmp_rand_ok_def list_all_iff)
  with a b show ?thesis by blast
qed

lemma splitext_temp_no_ext:
  assumes "tmp_rand_ok r"
  shows "snd (splitext (d @ ''/'' @ ''tmp'' @ r @ [])) = []"
proof -
  define p where "p = d @ ''/'' @ ''tmp'' @ r @ []"
  have r: "CHR ''.'' \<notin> set r" "CHR ''/'' \<notin> set r"
    using tmp_rand_ok_chars [OF assms] by blast+
  have "rfind CHR ''/'' (d @ CHR ''/'' # (''tmp'' @ r)) = int (length d)"
    using r by (intro rfind_last) simp
  then have sep: "rfind CHR ''/'' p = int (length d)"
    by (simp add: p_def)
  have "rfind CHR ''.'' (d @ (''/tmp'' @ r)) = rfind CHR ''.'' d"
    using r by (intro rfind_append_notin) simp
  then have "rfind CHR ''.'' p = rfind CHR ''.'' d"
    by (simp add: p_def)
  then have "rfind CHR ''.'' p < int (length d)"
    using rfind_less [of "CHR ''.''" d] by simp
  then have "\<not> rfind CHR ''.'' p > rfind CHR ''/'' p" using sep by simp
  then have "snd (splitext p) = snd (p, [] :: string)"
    unfolding splitext_def Let_def by (simp only: simp_thms if_False)
  then have "snd (splitext p) = []"
    by (simp only: snd_conv)
  then show ?thesis by (simp only: p_def)
qed

lemma splitext_temp_ext:
  assumes "tmp_rand_ok r" and "CHR ''.'' \<notin> set e" and "CHR ''/'' \<notin> set e"
  shows "snd (splitext (d @ ''/'' @ ''tmp'' @ r @ CHR ''.'' # e)) = CHR ''.'' # e"
proof -
  define p where "p = d @ ''/'' @ ''tmp'' @ r @ CHR ''.'' # e"
  have r: "CHR ''.'' \<notin> set r" "CHR ''/'' \<notin> set r"
    using tmp_rand_ok_chars [OF assms(1)] by blast+
  have "rfind CHR ''/'' (d @ CHR ''/'' # (''tmp'' @ r @ CHR ''.'' # e)) = int (length d)"
    using r assms(3) by (intro rfind_last) simp
  then have sep: "rfind CHR ''/'' p = int (length d)"
    by (simp add: p_def)
  have "rfind CHR ''.'' ((d @ ''/tmp'' @ r) @ CHR ''.'' # e) = int (length (d @ ''/tmp'' @ r))"
    using assms(2) by (rule rfind_last)
  then have dot: "rfind CHR ''.'' p = int (length d + 4 + length r)"
    by (simp add: p_def)
  have p1: "drop (Suc (length d)) p = ''tmp'' @ r @ CHR ''.'' # e"
    by (simp add: p_def)
  have pe: "p = (d @ ''/tmp'' @ r) @ CHR ''.'' # e"
    by (simp add: p_def)
  have len: "length d + 4 + length r = length (d @ ''/tmp'' @ r)"
    by simp
  have p2: "drop (length d + 4 + length r) p = CHR ''.'' # e"
    by (simp only: pe len drop_length_append)
  have n1: "nat (rfind CHR ''/'' p + 1) = Suc (length d)" by (simp add: sep)
  have n2: "nat (rfind CHR ''.'' p) = length d + 4 + length r" by (simp add: dot)
  have n3: "nat (rfind CHR ''.'' p - (rfind CHR ''/'' p + 1)) = 3 + length r" by (simp add: sep dot)
  have tk: "take (length (''tmp'' @ r)) ((''tmp'' @ r) @ CHR ''.'' # e) = ''tmp'' @ r"
    by (rule take_length_append)
  have len3: "3 + length r = length (''tmp'' @ r)" by simp
  have p1': "drop (Suc (length d)) p = (''tmp'' @ r) @ CHR ''.'' # e"
    by (simp add: p_def)
  have sl: "take (nat (rfind CHR ''.'' p - (rfind CHR ''/'' p + 1))) (drop (nat (rfind CHR ''/'' p + 1)) p)
        = ''tmp'' @ r"
    by (simp only: n1 n3 p1' len3 tk)
  have ex: "list_ex (\<lambda>x. x \<noteq> CHR ''.'') (''tmp'' @ r)" by simp
  have gt: "rfind CHR ''.'' p > rfind CHR ''/'' p" by (simp add: sep dot)
  have "splitext p = (take (nat (rfind CHR ''.'' p)) p, drop (nat (rfind CHR ''.'' p)) p)"
    unfolding splitext_def Let_def sl using gt ex by (simp only: simp_thms if_True)
  then have "snd (splitext p) = CHR ''.'' # e"
    by (simp only: snd_conv n2 p2)
  then show ?thesis by (simp only: p_def)
qed

lemma splitext_short_stem:
  assumes "CHR ''.'' \<notin> set e" and "CHR ''/'' \<notin> set e"
  shows "snd (splitext (CHR ''a'' # CHR ''.'' # e)) = CHR ''.'' # e"
proof -
  define p where "p = CHR ''a'' # CHR ''.'' # e"
  have sep: "rfind CHR ''/'' p = - 1"
    using assms(2) by (intro rfind_notin) (simp add: p_def)
  have "rfind CHR ''.'' ([CHR ''a''] @ CHR ''.'' # e) = int (length [CHR ''a''])"
    using assms(1) by (rule rfind_last)
  then have dot: "rfind CHR ''.'' p = 1"
    by (simp add: p_def)
  have sl: "take (nat (rfind CHR ''.'' p - (rfind CHR ''/'' p + 1))) (drop (nat (rfind CHR ''/'' p + 1)) p)
        = [CHR ''a'']"
    unfolding sep dot by (simp add: p_def)
  have dr: "drop (nat (rfind CHR ''.'' p)) p = CHR ''.'' # e"
    unfolding dot by (simp add: p_def)
  have ex: "list_ex (\<lambda>x. x \<noteq> CHR ''.'') [CHR ''a'']" by simp
  have gt: "rfind CHR ''.'' p > rfind CHR ''/'' p" by (simp add: sep dot)
  have "splitext p = (take (nat (rfind CHR ''.'' p)) p, drop (nat (rfind CHR ''.'' p)) p)"
    unfolding splitext_def Let_def sl using gt ex by (simp only: simp_thms if_True)
  then have "snd (splitext p) = CHR ''.'' # e"
    by (simp only: snd_conv dr)
  then show ?thesis by (simp only: p_def)
qed

lemma splitext_temp_file_name:
  assumes "tmp_rand_ok (tmp_rand env)"
  shows "snd (splitext (temp_file_name env (snd (splitext f)))) = snd (splitext f)"
proof (cases f rule: splitext_ext_cases)
  case none
  then show ?thesis
    using splitext_temp_no_ext [OF assms, of "tmp_dir env"] by (simp add: temp_file_name_def)
next
  case (ext e)
  then show ?thesis
    using splitext_temp_ext [OF assms ext(2,3), of "tmp_dir env"] by (simp add: temp_file_name_def)
qed

lemma validate_audio_file_saved:
  assumes "tmp_rand_ok (tmp_rand env)"
  shows "validate_audio_file (Map.empty(temp_file_name env (snd (splitext f)) \<mapsto> c))
           (temp_file_name env (snd (splitext f)))
         = (length c \<le> MAX_FILE_SIZE \<and> py_lower (snd (splitext f)) \<in> set allowed_extensions)"
proof -
  have "validate_audio_file (Map.empty(temp_file_name env (snd (splitext f)) \<mapsto> c))
           (temp_file_name env (snd (splitext f)))
        = (if length c > MAX_FILE_SIZE then False
           else py_lower (snd (splitext (temp_file_name env (snd (splitext f))))) \<in> set allowed_extensions)"
    by (simp add: validate_audio_file_def)
  also have "\<dots> = (length c \<le> MAX_FILE_SIZE \<and> py_lower (snd (splitext f)) \<in> set allowed_extensions)"
    by (simp only: splitext_temp_file_name [OF assms]) auto
  finally show ?thesis .
qed

section \<open>The endpoint: properties\<close>

lemma snd_send_error_notification:
  "snd (send_error_notification env m n f tr) = tr @ [Post (ErrorPayload m n f)]"
  by (simp add: send_error_notification_def Let_def split: sum.splits)

lemma send_error_notification_eq:
  "send_error_notification env m n f tr
     = (fst (send_error_notification env m n f tr), tr @ [Post (ErrorPayload m n f)])"
  by (rule prod_eqI) (simp_all add: snd_send_error_notification)

lemma transcribe_audio_http_error:
  "handle_payload env audio rd key [] = (Inl (HTTPException sc d), tr)
     \<Longrightarrow> transcribe_audio env audio akf rd key = (Inl (HTTPException sc d), tr)"
  by (simp add: transcribe_audio_def)

lemma transcribe_audio_os_error:
  assumes "handle_payload env audio rd key [] = (Inl (OSError m), tr)"
  shows "transcribe_audio env audio akf rd key
     = (Inl (HTTPException 500 ''Internal server error during transcription''),
        tr @ [Post (ErrorPayload (''Internal server error: '' @ m) (key_name key)
                      (original_filename_of audio))])"
proof -
  have "transcribe_audio env audio akf rd key
     = (let (sent, tr1) = send_error_notification env (''Internal server error: '' @ m)
                 (key_name key) (original_filename_of audio) tr
        in (Inl (HTTPException 500 ''Internal server error during transcription''), tr1))"
    using assms by (simp add: transcribe_audio_def)
  also have "\<dots> = (Inl (HTTPException 500 ''Internal server error during transcription''),
        tr @ [Post (ErrorPayload (''Internal server error: '' @ m) (key_name key)
                      (original_filename_of audio))])"
    by (subst send_error_notification_eq) simp
  finally show ?thesis .
qed

lemma handle_payload_no_payload:
  assumes "\<not> truthy (filename u)" and "rd = None \<or> \<not> truthy (audio_base64 (the rd))"
  shows "handle_payload env (Some u) rd key []
     = (Inl (HTTPException 400 ''Either audio file or audio_base64 must be provided''),
        [Post (ErrorPayload ''No audio data provided'' (key_name key) None)])"
proof -
  have "handle_payload env (Some u) rd key []
     = (let (sent, tr1) = send_error_notification env ''No audio data provided'' (key_name key) None []
        in (Inl (HTTPException 400 ''Either audio file or audio_base64 must be provided''), tr1))"
    using assms by (auto simp add: handle_payload_def)
  also have "\<dots> = (Inl (HTTPException 400 ''Either audio file or audio_base64 must be provided''),
        [Post (ErrorPayload ''No audio data provided'' (key_name key) None)])"
    by (subst send_error_notification_eq) simp
  finally show ?thesis .
qed

lemma handle_payload_nothing:
  "handle_payload env None None key []
     = (Inl (HTTPException 400 ''Either audio file or audio_base64 must be provided''),
        [Post (ErrorPayload ''No audio data provided'' (key_name key) None)])"
proof -
  have "handle_payload env None None key []
     = (let (sent, tr1) = send_error_notification env ''No audio data provided'' (key_name key) None []
        in (Inl (HTTPException 400 ''Either audio file or audio_base64 must be provided''), tr1))"
    by (simp add: handle_payload_def)
  also have "\<dots> = (Inl (HTTPException 400 ''Either audio file or audio_base64 must be provided''),
        [Post (ErrorPayload ''No audio data provided'' (key_name key) None)])"
    by (subst send_error_notification_eq) simp
  finally show ?thesis .
qed

lemma authenticate_k1:
  assumes "x_api_key req = Some ''k1''"
  shows "fst (authenticate example_store now req) = Inr example_doc"
  using assms
  by (simp add: authenticate_def validate_api_key_def get_api_key_from_header_def py_or_def
      truthy_def find_one_def example_store_def example_doc_def retired_doc_def
      touch_last_used_def Let_def)

text \<open>
  A JSON body is never bound to \<open>request_data\<close>: an authenticated request with a JSON
  body reaches the handler without any payload, whatever the body holds.
\<close>

lemma json_body_is_not_bound:
  assumes "json_body req \<noteq> None" and "fst (authenticate col now req) = Inr key"
  shows "fst (post_transcribe env col now req)
           = Inl (HTTPException 400 ''Either audio file or audio_base64 must be provided'')
       \<and> fst (snd (post_transcribe env col now req))
           = [Post (ErrorPayload ''No audio data provided'' (key_name key) None)]"
proof -
  obtain col' where a: "authenticate col now req = (Inr key, col')"
    using assms(2) by (cases "authenticate col now req") simp
  have "post_transcribe env col now req
     = (Inl (HTTPException 400 ''Either audio file or audio_base64 must be provided''),
        [Post (ErrorPayload ''No audio data provided'' (key_name key) None)], col')"
    using assms(1)
    by (simp add: post_transcribe_def a bind_body_def
        transcribe_audio_http_error [OF handle_payload_nothing])
  then show ?thesis by simp
qed

lemma file_part_is_bound:
  assumes "json_body req = None" and "form_audio req = Some (FilePart u)"
    and "form_request_data req = None" and "form_api_key_file req = None"
    and "fst (authenticate col now req) = Inr key"
  shows "fst (post_transcribe env col now req) = fst (transcribe_audio env (Some u) None None key)
       \<and> fst (snd (post_transcribe env col now req))
           = snd (transcribe_audio env (Some u) None None key)"
proof -
  obtain col' where a: "authenticate col now req = (Inr key, col')"
    using assms(5) by (cases "authenticate col now req") simp
  have b: "bind_body req = Inr (Some u, None, None)"
    using assms(1-4) by (simp add: bind_body_def truthy_def)
  show ?thesis
    by (simp add: post_transcribe_def a b split: prod.splits)
qed

text \<open>
  Claim C10, as stated, fails for a file part without a file name: the framework takes
  such a part for a text field, cannot bind it to \<open>audio\<close>, and answers with status 422
  before the handler runs.
\<close>

theorem part_without_filename_is_unprocessable:
  "form_audio part_without_filename_request = Some (FieldPart ''RIFF'')
   \<and> json_body part_without_filename_request = None
   \<and> fst (authenticate example_store 2000 part_without_filename_request) = Inr example_doc
   \<and> fst (post_transcribe env_webhook_up example_store 2000 part_without_filename_request)
       = Inl (RequestValidationError [''audio''])
   \<and> http_status (RequestValidationError [''audio'']) = 422
   \<and> fst (snd (post_transcribe env_webhook_up example_store 2000 part_without_filename_request))
       = []"
  by (simp add: post_transcribe_def bind_body_def part_without_filename_request_def
      authenticate_def validate_api_key_def get_api_key_from_header_def
      get_api_key_from_auth_def py_or_def truthy_def find_one_def example_store_def
      example_doc_def retired_doc_def touch_last_used_def Let_def)

text \<open>
  Claim C10, amended. An upload whose file part has an empty file name does not enter the
  file branch. With no base64 text in the body either, the handler reports
  \<^verbatim>\<open>No audio data provided\<close> to the webhook and fails with status 400 and the detail
  \<^verbatim>\<open>Either audio file or audio_base64 must be provided\<close>; the record of the request
  holds that one POST only, so neither the type validator nor the speech engine has run.
\<close>

theorem no_payload_with_empty_filename:
  assumes "filename u = Some []" and "rd = None \<or> \<not> truthy (audio_base64 (the rd))"
  shows "transcribe_audio env (Some u) akf rd key
     = (Inl (HTTPException 400 ''Either audio file or audio_base64 must be provided''),
        [Post (ErrorPayload ''No audio data provided'' (key_name key) None)])
   \<and> \<not> list_ex is_validate_type (snd (transcribe_audio env (Some u) akf rd key))
   \<and> \<not> list_ex is_transcribe (snd (transcribe_audio env (Some u) akf rd key))"
proof -
  have "\<not> truthy (filename u)" using assms(1) by (simp add: truthy_def)
  from transcribe_audio_http_error [OF handle_payload_no_payload [OF this assms(2)]]
  show ?thesis by simp
qed

theorem no_payload_with_empty_filename_witness:
  "filename nameless_upload = Some []
   \<and> transcribe_audio env_webhook_up (Some nameless_upload) None None example_doc
     = (Inl (HTTPException 400 ''Either audio file or audio_base64 must be provided''),
        [Post (ErrorPayload ''No audio data provided'' ''client'' None)])
   \<and> fst (post_transcribe env_webhook_up example_store 2000 empty_filename_request)
     = Inl (HTTPException 400 ''Either audio file or audio_base64 must be provided'')
   \<and> fst (snd (post_transcribe env_webhook_up example_store 2000 empty_filename_request))
     = [Post (ErrorPayload ''No audio data provided'' ''client'' None)]"
proof -
  have h: "filename nameless_upload = Some []"
    by (simp add: nameless_upload_def)
  have k: "key_name example_doc = ''client''" by (simp add: key_name_def example_doc_def)
  from no_payload_with_empty_filename [OF h, of None env_webhook_up None example_doc] k
  have 1: "transcribe_audio env_webhook_up (Some nameless_upload) None None example_doc
     = (Inl (HTTPException 400 ''Either audio file or audio_base64 must be provided''),
        [Post (ErrorPayload ''No audio data provided'' ''client'' None)])"
    by simp
  have a: "authenticate example_store 2000 empty_filename_request
      = (Inr example_doc, snd (authenticate example_store 2000 empty_filename_request))"
    by (rule prod_eqI)
       (simp_all add: authenticate_def validate_api_key_def get_api_key_from_header_def
          empty_filename_request_def py_or_def truthy_def find_one_def example_store_def
          example_doc_def retired_doc_def touch_last_used_def Let_def)
  have b: "bind_body empty_filename_request = Inr (Some nameless_upload, None, None)"
    by (simp add: bind_body_def empty_filename_request_def truthy_def)
  have "post_transcribe env_webhook_up example_store 2000 empty_filename_request
     = (Inl (HTTPException 400 ''Either audio file or audio_base64 must be provided''),
        [Post (ErrorPayload ''No audio data provided'' ''client'' None)],
        snd (authenticate example_store 2000 empty_filename_request))"
    by (subst post_transcribe_def, subst a) (simp add: b 1)
  with h 1 show ?thesis by simp
qed

lemma named_temporary_file_Inr:
  "named_temporary_file env suffix = Inr path \<Longrightarrow> path = temp_file_name env suffix"
  by (auto simp: named_temporary_file_def split: if_splits option.splits)

lemma file_size_check:
  "(case file_size u of None \<Rightarrow> False | Some n \<Rightarrow> n \<noteq> 0 \<and> n > MAX_FILE_SIZE)
     = (length (content u) > MAX_FILE_SIZE)"
  by (auto simp: file_size_def)

lemma handle_file_second_check:
  assumes "validate_audio_type (content_type u) (Some f)"
    and "length (content u) \<le> MAX_FILE_SIZE"
    and "tmp_rand_ok (tmp_rand env)"
    and "named_temporary_file env (snd (splitext f)) = Inr path"
    and "py_lower (snd (splitext f)) \<notin> set allowed_extensions"
  shows "handle_file env u f key []
     = (Inl (HTTPException 400 ''Invalid audio file format or size''),
        [ValidateType (content_type u) (Some f),
         Post (ErrorPayload ''Invalid audio file format or size'' (key_name key) (Some f))])"
proof -
  have sz: "\<not> (case file_size u of None \<Rightarrow> False | Some n \<Rightarrow> n \<noteq> 0 \<and> n > MAX_FILE_SIZE)"
    using assms(2) by (simp add: file_size_check)
  have path: "path = temp_file_name env (snd (splitext f))"
    using assms(4) by (rule named_temporary_file_Inr)
  have vf: "\<not> validate_audio_file (Map.empty(path \<mapsto> content u)) path"
    unfolding path using assms(5) by (simp add: validate_audio_file_saved [OF assms(3)])
  have "handle_file env u f key []
     = (let (sent, tr2) = send_error_notification env ''Invalid audio file format or size''
                     (key_name key) (Some f) [ValidateType (content_type u) (Some f)]
        in (Inl (HTTPException 400 ''Invalid audio file format or size''), tr2))"
    unfolding handle_file_def Let_def assms(4) using assms(1) sz vf
    by (simp only: simp_thms if_False if_True append_Nil sum.case)
  also have "\<dots> = (Inl (HTTPException 400 ''Invalid audio file format or size''),
        [ValidateType (content_type u) (Some f),
         Post (ErrorPayload ''Invalid audio file format or size'' (key_name key) (Some f))])"
    by (subst send_error_notification_eq) simp
  finally show ?thesis .
qed

text \<open>
  Claim C9, amended. For a file upload that the payload type validator accepts, whose
  size does not exceed the maximum and for which the temporary file can be created, a
  second check on the saved file comes before the transcription: when the lowercased
  extension of the file name is not one of \<^verbatim>\<open>.mp3 .wav .m4a .mp4 .ogg .flac\<close>, the
  handler reports to the webhook and fails with status 400 and the detail
  \<^verbatim>\<open>Invalid audio file format or size\<close>, and the speech engine is not called.
\<close>

theorem second_file_check_rejects:
  assumes "filename u = Some f" and "f \<noteq> []"
    and "validate_audio_type (content_type u) (Some f)"
    and "length (content u) \<le> MAX_FILE_SIZE"
    and "tmp_rand_ok (tmp_rand env)"
    and "named_temporary_file env (snd (splitext f)) = Inr path"
    and "py_lower (snd (splitext f)) \<notin> set allowed_extensions"
  shows "transcribe_audio env (Some u) akf rd key
     = (Inl (HTTPException 400 ''Invalid audio file format or size''),
        [ValidateType (content_type u) (Some f),
         Post (ErrorPayload ''Invalid audio file format or size'' (key_name key) (Some f))])
   \<and> \<not> list_ex is_transcribe (snd (transcribe_audio env (Some u) akf rd key))"
proof -
  have "handle_payload env (Some u) rd key [] = handle_file env u f key []"
    using assms(1,2) by (simp add: handle_payload_def truthy_def)
  then have "handle_payload env (Some u) rd key []
     = (Inl (HTTPException 400 ''Invalid audio file format or size''),
        [ValidateType (content_type u) (Some f),
         Post (ErrorPayload ''Invalid audio file format or size'' (key_name key) (Some f))])"
    by (simp only: handle_file_second_check [OF assms(3,4,5,6,7)])
  from transcribe_audio_http_error [OF this] show ?thesis by simp
qed

lemma named_temporary_file_example:
  assumes "length suffix \<le> 5" and "\<forall>c \<in> set suffix. c \<noteq> CHR 0x00 \<and> (of_char c :: nat) < 128"
  shows "named_temporary_file env_webhook_up suffix = Inr (''/tmp/tmpab12cd34'' @ suffix)"
proof -
  have "utf8_length suffix = length suffix"
    using assms(2) by (induction suffix) (simp_all add: utf8_length_def)
  then have "utf8_length (''tmp'' @ ''ab12cd34'' @ suffix) \<le> NAME_MAX"
    using assms(1) by (simp add: utf8_length_def NAME_MAX_def)
  moreover have "CHR 0x00 \<notin> set suffix" using assms(2) by blast
  ultimately show ?thesis
    by (simp add: named_temporary_file_def env_webhook_up_def temp_file_name_def)
qed

theorem second_file_check_rejects_witness:
  "filename aac_upload = Some ''voice.aac''
   \<and> validate_audio_type (content_type aac_upload) (Some ''voice.aac'')
   \<and> length (content aac_upload) \<le> MAX_FILE_SIZE \<and> tmp_rand_ok (tmp_rand env_webhook_up)
   \<and> named_temporary_file env_webhook_up (snd (splitext ''voice.aac''))
        = Inr ''/tmp/tmpab12cd34.aac''
   \<and> py_lower (snd (splitext ''voice.aac'')) \<notin> set allowed_extensions
   \<and> transcribe_audio env_webhook_up (Some aac_upload) None None example_doc
     = (Inl (HTTPException 400 ''Invalid audio file format or size''),
        [ValidateType (Some ''audio/mpeg'') (Some ''voice.aac''),
         Post (ErrorPayload ''Invalid audio file format or size'' ''client'' (Some ''voice.aac''))])"
proof -
  have 1: "filename aac_upload = Some ''voice.aac''" by (simp add: aac_upload_def)
  have 2: "''voice.aac'' \<noteq> []" by simp
  have 3: "validate_audio_type (content_type aac_upload) (Some ''voice.aac'')" by code_simp
  have 4: "length (content aac_upload) \<le> MAX_FILE_SIZE"
    by (simp add: aac_upload_def MAX_FILE_SIZE_def)
  have 5: "tmp_rand_ok (tmp_rand env_webhook_up)" by code_simp
  have e: "snd (splitext ''voice.aac'') = ''.aac''" by code_simp
  have "named_temporary_file env_webhook_up ''.aac'' = Inr (''/tmp/tmpab12cd34'' @ ''.aac'')"
    by (rule named_temporary_file_example) simp_all
  then have 6: "named_temporary_file env_webhook_up (snd (splitext ''voice.aac''))
        = Inr ''/tmp/tmpab12cd34.aac''"
    by (simp add: e)
  have 7: "py_lower (snd (splitext ''voice.aac'')) \<notin> set allowed_extensions" by code_simp
  have k: "key_name example_doc = ''client''" by (simp add: key_name_def example_doc_def)
  have c: "content_type aac_upload = Some ''audio/mpeg''" by (simp add: aac_upload_def)
  from second_file_check_rejects [OF 1 2 3 4 5 6 7, of None None example_doc]
  have "transcribe_audio env_webhook_up (Some aac_upload) None None example_doc
     = (Inl (HTTPException 400 ''Invalid audio file format or size''),
        [ValidateType (Some ''audio/mpeg'') (Some ''voice.aac''),
         Post (ErrorPayload ''Invalid audio file format or size'' ''client'' (Some ''voice.aac''))])"
    by (simp only: k c)
  with 1 3 4 5 6 7 show ?thesis by blast
qed

lemma show_nat_MAX: "show_nat MAX_FILE_SIZE = ''26214400''"
  by (simp add: MAX_FILE_SIZE_def show_nat.simps digit_char_def)

lemma length_oversized: "length oversized_content = Suc MAX_FILE_SIZE"
  by (simp add: oversized_content_def)

lemma oversized_run:
  "transcribe_audio env_webhook_up (Some oversized_aac_upload) None None example_doc
       = (Inl (HTTPException 400 ''File too large. Maximum size: 26214400 bytes''),
          [ValidateType (Some ''audio/mpeg'') (Some ''voice.aac''),
           Post (ErrorPayload ''File too large: 26214401 bytes'' ''client'' (Some ''voice.aac''))])"
proof -
  have 1: "filename oversized_aac_upload = Some ''voice.aac''"
    by (simp add: oversized_aac_upload_def)
  have c: "content_type oversized_aac_upload = Some ''audio/mpeg''"
    by (simp add: oversized_aac_upload_def)
  have 2: "validate_audio_type (Some ''audio/mpeg'') (Some ''voice.aac'')"
    by code_simp
  have fs: "file_size oversized_aac_upload = Some (Suc MAX_FILE_SIZE)"
    by (simp add: file_size_def oversized_aac_upload_def length_oversized)
  have sz: "show_nat (Suc MAX_FILE_SIZE) = ''26214401''"
    by (simp add: MAX_FILE_SIZE_def show_nat.simps digit_char_def)
  have k: "key_name example_doc = ''client''" by (simp add: key_name_def example_doc_def)
  have "handle_file env_webhook_up oversized_aac_upload ''voice.aac'' example_doc []
       = (let (sent, tr2) = send_error_notification env_webhook_up
               ''File too large: 26214401 bytes'' ''client'' (Some ''voice.aac'')
               [ValidateType (Some ''audio/mpeg'') (Some ''voice.aac'')]
          in (Inl (HTTPException 400 ''File too large. Maximum size: 26214400 bytes''), tr2))"
    using 2 by (simp add: handle_file_def c fs k Let_def show_nat_MAX sz)
  also have "\<dots> = (Inl (HTTPException 400 ''File too large. Maximum size: 26214400 bytes''),
          [ValidateType (Some ''audio/mpeg'') (Some ''voice.aac''),
           Post (ErrorPayload ''File too large: 26214401 bytes'' ''client'' (Some ''voice.aac''))])"
    by (subst send_error_notification_eq) simp
  finally have "handle_payload env_webhook_up (Some oversized_aac_upload) None example_doc []
       = (Inl (HTTPException 400 ''File too large. Maximum size: 26214400 bytes''),
          [ValidateType (Some ''audio/mpeg'') (Some ''voice.aac''),
           Post (ErrorPayload ''File too large: 26214401 bytes'' ''client'' (Some ''voice.aac''))])"
    using 1 by (simp add: handle_payload_def truthy_def)
  from transcribe_audio_http_error [OF this] show ?thesis .
qed

lemma utf8_length_replicate: "utf8_length (replicate n CHR ''x'') = n"
  by (induction n) (simp_all add: utf8_length_def)

lemma long_extension:
  "snd (splitext (''a.'' @ replicate 300 CHR ''x'')) = CHR ''.'' # replicate 300 CHR ''x''"
  using splitext_short_stem [of "replicate 300 CHR ''x''"] by simp

lemma long_extension_run:
  "fst (transcribe_audio env_webhook_up (Some long_extension_upload) None None example_doc)
     = Inl (HTTPException 500 ''Internal server error during transcription'')"
proof -
  define f where "f = ''a.'' @ replicate 300 CHR ''x''"
  define m where "m = ''[Errno 36] File name too long: '' @ [CHR 0x27]
      @ temp_file_name env_webhook_up (snd (splitext f)) @ [CHR 0x27]"
  have u: "long_extension_upload
      = \<lparr> filename = Some f, content_type = Some ''audio/mpeg'', content = [73, 68, 51] \<rparr>"
    by (simp add: long_extension_upload_def f_def)
  have ne: "f \<noteq> []" by (simp add: f_def)
  have v: "validate_audio_type (Some ''audio/mpeg'') (Some f)"
  proof -
    have "spec_step1 (Some ''audio/mpeg'')" by code_simp
    then show ?thesis by (simp add: validate_audio_type_steps)
  qed
  have e: "snd (splitext f) = CHR ''.'' # replicate 300 CHR ''x''"
    unfolding f_def by (rule long_extension)
  have "utf8_length (''tmp'' @ ''ab12cd34'' @ CHR ''.'' # replicate 300 CHR ''x'')
          = 11 + utf8_length (CHR ''.'' # replicate 300 CHR ''x'')"
    by (simp add: utf8_length_def)
  also have "\<dots> = 312"
    using utf8_length_replicate [of 300] by (simp add: utf8_length_def)
  finally have long: "utf8_length (''tmp'' @ tmp_rand env_webhook_up @ snd (splitext f)) > NAME_MAX"
    by (simp add: e env_webhook_up_def NAME_MAX_def)
  have nul: "CHR 0x00 \<notin> set (snd (splitext f))" by (simp add: e)
  have nt: "named_temporary_file env_webhook_up (snd (splitext f)) = Inl (OSError m)"
    using long nul by (simp add: named_temporary_file_def m_def env_webhook_up_def)
  have sz: "\<not> (case file_size long_extension_upload of None \<Rightarrow> False
                 | Some n \<Rightarrow> n \<noteq> 0 \<and> n > MAX_FILE_SIZE)"
    by (simp add: file_size_check u MAX_FILE_SIZE_def)
  have ct: "content_type long_extension_upload = Some ''audio/mpeg''" by (simp add: u)
  have "handle_file env_webhook_up long_extension_upload f example_doc []
      = (Inl (OSError m), [ValidateType (Some ''audio/mpeg'') (Some f)])"
    unfolding handle_file_def Let_def nt ct using v sz
    by (simp only: simp_thms if_False if_True append_Nil sum.case)
  then have "handle_payload env_webhook_up (Some long_extension_upload) None example_doc []
      = (Inl (OSError m), [ValidateType (Some ''audio/mpeg'') (Some f)])"
    using ne by (simp add: handle_payload_def u truthy_def)
  from transcribe_audio_os_error [OF this] show ?thesis by simp
qed

text \<open>
  Claim C9, as stated, fails in two ways. An upload above the maximum size, with an
  extension that is not one of the six, is accepted by the type validator and then ends at
  the first size check with the detail \<^verbatim>\<open>File too large\<close>, not at the second check. An
  upload with an extension of 300 letters, accepted by the type validator, ends before the
  second check as well: its temporary file cannot be created and the answer is a 500.
\<close>

theorem second_file_check_not_reached:
  "validate_audio_type (content_type oversized_aac_upload) (filename oversized_aac_upload)
   \<and> py_lower (snd (splitext (the (filename oversized_aac_upload)))) \<notin> set allowed_extensions
   \<and> length (content oversized_aac_upload) > MAX_FILE_SIZE
   \<and> transcribe_audio env_webhook_up (Some oversized_aac_upload) None None example_doc
       = (Inl (HTTPException 400 ''File too large. Maximum size: 26214400 bytes''),
          [ValidateType (Some ''audio/mpeg'') (Some ''voice.aac''),
           Post (ErrorPayload ''File too large: 26214401 bytes'' ''client'' (Some ''voice.aac''))])
   \<and> validate_audio_type (content_type long_extension_upload) (filename long_extension_upload)
   \<and> py_lower (snd (splitext (the (filename long_extension_upload)))) \<notin> set allowed_extensions
   \<and> fst (transcribe_audio env_webhook_up (Some long_extension_upload) None None example_doc)
       = Inl (HTTPException 500 ''Internal server error during transcription'')"
proof -
  have 1: "validate_audio_type (content_type oversized_aac_upload) (filename oversized_aac_upload)"
  proof -
    have "validate_audio_type (Some ''audio/mpeg'') (Some ''voice.aac'')" by code_simp
    then show ?thesis by (simp add: oversized_aac_upload_def)
  qed
  have 2: "py_lower (snd (splitext (the (filename oversized_aac_upload)))) \<notin> set allowed_extensions"
  proof -
    have "py_lower (snd (splitext ''voice.aac'')) \<notin> set allowed_extensions" by code_simp
    then show ?thesis by (simp add: oversized_aac_upload_def)
  qed
  have 3: "length (content oversized_aac_upload) > MAX_FILE_SIZE"
    by (simp add: oversized_aac_upload_def length_oversized)
  have 5: "validate_audio_type (content_type long_extension_upload) (filename long_extension_upload)"
  proof -
    have "spec_step1 (Some ''audio/mpeg'')" by code_simp
    then show ?thesis by (simp add: validate_audio_type_steps long_extension_upload_def)
  qed
  have 6: "py_lower (snd (splitext (the (filename long_extension_upload)))) \<notin> set allowed_extensions"
  proof
    assume a: "py_lower (snd (splitext (the (filename long_extension_upload)))) \<in> set allowed_extensions"
    have "\<forall>e \<in> set allowed_extensions. length e \<le> 5" by (simp add: allowed_extensions_def)
    with a have "length (py_lower (snd (splitext (the (filename long_extension_upload))))) \<le> 5"
      by blast
    moreover have "snd (splitext (the (filename long_extension_upload)))
        = CHR ''.'' # replicate 300 CHR ''x''"
      using long_extension by (simp add: long_extension_upload_def)
    ultimately show False by (simp add: py_lower_def)
  qed
  from 1 2 3 oversized_run 5 6 long_extension_run show ?thesis by blast
qed

lemma py_int_0: "py_int 0 = 0" by (simp add: py_int_def)

text \<open>
  Claim C8. Every successful response of the handler has the message
  \<^verbatim>\<open>Transcription completed\<close> and the status \<^verbatim>\<open>success\<close>; its text, language and
  duration are the triple the payload handling returned; its \<open>webhook_delivered\<close> flag
  says whether the result delivery returned true; and its \<open>transcription_id\<close> is
  \<^verbatim>\<open>trans_\<close>, the identifier of the authenticated credential, an underscore and the
  integer part of the duration.
\<close>

theorem success_response_fields:
  assumes "transcribe_audio env audio akf rd key = (Inr resp, tr)"
  shows "resp_message resp = ''Transcription completed'' \<and> resp_status resp = ''success''
    \<and> (\<exists>tr0. handle_payload env audio rd key []
                = (Inr (resp_text resp, resp_language resp, resp_duration resp), tr0)
            \<and> resp_webhook_delivered resp
                = (fst (send_transcription_result env (resp_text resp) (resp_language resp)
                          (resp_duration resp) (key_name key) (original_filename_of audio)
                          (audio_size_of audio) tr0) = Inr True))
    \<and> resp_transcription_id resp
        = ''trans_'' @ doc_id key @ ''_'' @ show_int (py_int (resp_duration resp))"
proof (cases "handle_payload env audio rd key []")
  case (Pair r tr0)
  show ?thesis
  proof (cases r)
    case (Inl e)
    with Pair assms show ?thesis
      by (cases e) (simp_all add: transcribe_audio_def split: prod.splits)
  next
    case (Inr res)
    obtain t l d where res: "res = (t, l, d)" by (cases res)
    obtain sent tr1 where s: "send_transcription_result env t l d (key_name key)
        (original_filename_of audio) (audio_size_of audio) tr0 = (sent, tr1)"
      by (cases "send_transcription_result env t l d (key_name key)
        (original_filename_of audio) (audio_size_of audio) tr0")
    from Pair Inr res s assms
    have resp: "resp = \<lparr> resp_message = ''Transcription completed'', resp_status = ''success'',
         resp_text = t, resp_language = l, resp_duration = d,
         resp_webhook_delivered = (case sent of Inl e \<Rightarrow> False | Inr b \<Rightarrow> b),
         resp_transcription_id = make_transcription_id key d \<rparr>"
      by (simp add: transcribe_audio_def)
    have id: "make_transcription_id key d = ''trans_'' @ doc_id key @ ''_'' @ show_int (py_int d)"
      by (simp add: make_transcription_id_def py_int_0)
    have w: "(case sent of Inl e \<Rightarrow> False | Inr b \<Rightarrow> b) = (sent = Inr True)"
      by (cases sent) auto
    show ?thesis
      using Pair Inr res s by (simp add: resp id w)
  qed
qed

lemma sample_run:
  "transcribe_audio env_webhook_up (Some sample_upload) None None example_doc
     = (Inr sample_response,
        [ValidateType (Some ''audio/mpeg'') (Some ''sample.mp3''),
         Transcribe ''/tmp/tmpab12cd34.mp3'',
         Post (ResultPayload ''ola mundo'' ''pt'' (5 / 2) ''client'' (Some ''sample.mp3'') (Some 3))])"
proof -
  have v: "validate_audio_type (Some ''audio/mpeg'') (Some ''sample.mp3'')" by code_simp
  have e: "snd (splitext ''sample.mp3'') = ''.mp3''" by code_simp
  have "named_temporary_file env_webhook_up ''.mp3'' = Inr (''/tmp/tmpab12cd34'' @ ''.mp3'')"
    by (rule named_temporary_file_example) simp_all
  then have t: "named_temporary_file env_webhook_up ''.mp3'' = Inr ''/tmp/tmpab12cd34.mp3''"
    by simp
  have fs: "file_size sample_upload = Some 3" by (simp add: file_size_def sample_upload_def)
  have ct: "content_type sample_upload = Some ''audio/mpeg''" by (simp add: sample_upload_def)
  have cn: "content sample_upload = [73, 68, 51]" by (simp add: sample_upload_def)
  have e2: "py_lower (snd (splitext ''/tmp/tmpab12cd34.mp3'')) \<in> set allowed_extensions" by code_simp
  have vf: "validate_audio_file (Map.empty(''/tmp/tmpab12cd34.mp3'' \<mapsto> [73, 68, 51])) ''/tmp/tmpab12cd34.mp3''"
    using e2 by (simp add: validate_audio_file_def MAX_FILE_SIZE_def)
  have s: "py_strip '' ola mundo '' = ''ola mundo''" by code_simp
  have tf: "transcribe_audio_file env_webhook_up (Map.empty(''/tmp/tmpab12cd34.mp3'' \<mapsto> [73, 68, 51]))
       ''/tmp/tmpab12cd34.mp3'' [ValidateType (Some ''audio/mpeg'') (Some ''sample.mp3'')]
     = (Inr (''ola mundo'', ''pt'', 5 / 2),
        [ValidateType (Some ''audio/mpeg'') (Some ''sample.mp3''), Transcribe ''/tmp/tmpab12cd34.mp3''])"
    by (simp add: transcribe_audio_file_def env_webhook_up_def example_engine_def s duration_of_def)
  have hf: "handle_file env_webhook_up sample_upload ''sample.mp3'' example_doc []
      = (Inr (''ola mundo'', ''pt'', 5 / 2),
        [ValidateType (Some ''audio/mpeg'') (Some ''sample.mp3''), Transcribe ''/tmp/tmpab12cd34.mp3''])"
    using v vf
    by (simp add: handle_file_def fs ct cn Let_def e t tf MAX_FILE_SIZE_def)
  have hp: "handle_payload env_webhook_up (Some sample_upload) None example_doc []
      = (Inr (''ola mundo'', ''pt'', 5 / 2),
        [ValidateType (Some ''audio/mpeg'') (Some ''sample.mp3''), Transcribe ''/tmp/tmpab12cd34.mp3''])"
    using hf by (simp add: handle_payload_def sample_upload_def truthy_def)
  have k: "key_name example_doc = ''client''" by (simp add: key_name_def example_doc_def)
  have sd: "send_transcription_result env_webhook_up ''ola mundo'' ''pt'' (5 / 2) ''client''
        (Some ''sample.mp3'') (Some 3)
        [ValidateType (Some ''audio/mpeg'') (Some ''sample.mp3''), Transcribe ''/tmp/tmpab12cd34.mp3'']
     = (Inr True, [ValidateType (Some ''audio/mpeg'') (Some ''sample.mp3''),
         Transcribe ''/tmp/tmpab12cd34.mp3'',
         Post (ResultPayload ''ola mundo'' ''pt'' (5 / 2) ''client'' (Some ''sample.mp3'') (Some 3))])"
    by (simp add: send_transcription_result_def env_webhook_up_def upt_conv_Cons Let_def
        count_posts_def post_attempt_def attempt_caught_def)
  have id: "make_transcription_id example_doc (5 / 2) = ''trans_650f1c2ab7e4d1a2b3c4d5e6_2''"
    by (simp add: make_transcription_id_def example_doc_def py_int_def show_int_def
        show_nat.simps digit_char_def)
  have o: "original_filename_of (Some sample_upload) = Some ''sample.mp3''"
    by (simp add: original_filename_of_def sample_upload_def truthy_def)
  have a: "audio_size_of (Some sample_upload) = Some 3"
    by (simp add: audio_size_of_def fs) (simp add: sample_upload_def truthy_def)
  show ?thesis
    by (simp add: transcribe_audio_def hp k sd id o a sample_response_def)
qed

theorem success_response_fields_witness:
  "transcribe_audio env_webhook_up (Some sample_upload) None None example_doc
     = (Inr sample_response,
        [ValidateType (Some ''audio/mpeg'') (Some ''sample.mp3''),
         Transcribe ''/tmp/tmpab12cd34.mp3'',
         Post (ResultPayload ''ola mundo'' ''pt'' (5 / 2) ''client'' (Some ''sample.mp3'') (Some 3))])
   \<and> resp_transcription_id sample_response
       = ''trans_'' @ doc_id example_doc @ ''_'' @ show_int (py_int (resp_duration sample_response))
   \<and> resp_message sample_response = ''Transcription completed''
   \<and> resp_status sample_response = ''success''"
  using success_response_fields [OF sample_run] sample_run by blast

section \<open>Transcription service: properties\<close>

lemma a2b_base64_errors:
  "a2b_base64 s q lc pads out = Inl e \<Longrightarrow> e \<in> decode_errors"
proof (induction s q lc pads out rule: a2b_base64.induct)
  case (1 quad_pos leftchar pads bin_data)
  then show ?case by (auto simp: decode_errors_def split: if_splits)
next
  case (2 this_ch rest quad_pos leftchar pads bin_data)
  show ?case
  proof (cases "this_ch = CHR ''=''")
    case True
    with 2 show ?thesis by (auto split: if_splits)
  next
    case False
    show ?thesis
    proof (cases "b64_value this_ch")
      case None
      with 2 False show ?thesis by auto
    next
      case (Some v)
      with 2 False show ?thesis by (auto split: if_splits)
    qed
  qed
qed

lemma b64decode_errors: "b64decode s = Inl e \<Longrightarrow> e \<in> decode_errors"
  by (auto simp: b64decode_def decode_errors_def split: if_splits dest: a2b_base64_errors)

lemma a2b_base64_unpadded:
  "CHR ''='' \<notin> set s \<Longrightarrow> q < 4 \<Longrightarrow>
   (\<exists>e. a2b_base64 s q lc pads out = Inl e) \<longleftrightarrow> (q + length (data_chars s)) mod 4 \<noteq> 0"
proof (induction s arbitrary: q lc pads out)
  case Nil
  then show ?case by (auto simp: data_chars_def)
next
  case (Cons c s)
  then have ne: "c \<noteq> CHR ''=''" and s: "CHR ''='' \<notin> set s" by auto
  show ?case
  proof (cases "b64_value c")
    case None
    then show ?thesis using ne Cons.IH [OF s Cons.prems(2)] by (simp add: data_chars_def)
  next
    case (Some v)
    consider "q = 0" | "q = 1" | "q = 2" | "q = 3" using Cons.prems(2) by linarith
    then show ?thesis
    proof cases
      case 1
      then show ?thesis using ne Some Cons.IH [OF s, of 1] by (simp add: data_chars_def)
    next
      case 2
      then show ?thesis using ne Some Cons.IH [OF s, of 2] by (simp add: data_chars_def)
    next
      case 3
      then show ?thesis using ne Some Cons.IH [OF s, of 3] by (simp add: data_chars_def)
    next
      case 4
      then show ?thesis using ne Some Cons.IH [OF s, of 0] by (simp add: data_chars_def mod_Suc)
    qed
  qed
qed

lemma b64decode_unpadded:
  assumes "\<not> list_ex (\<lambda>c. (of_char c :: nat) \<ge> 128) s" and "CHR ''='' \<notin> set s"
  shows "(\<exists>e. b64decode s = Inl e) \<longleftrightarrow> length (data_chars s) mod 4 \<noteq> 0"
  using assms a2b_base64_unpadded [of s 0 0 0 "[]"] by (simp add: b64decode_def)

lemma transcribe_base64_audio_decode_error:
  "b64decode s = Inl e \<Longrightarrow>
   transcribe_base64_audio env s tr
     = (Inl (HTTPException 400 (''Failed to process base64 audio: '' @ str_exn e)), tr)"
  by (simp add: transcribe_base64_audio_def)

lemma transcribe_base64_audio_only_400:
  "fst (transcribe_base64_audio env s tr) = Inl e \<Longrightarrow> \<exists>d. e = HTTPException 400 d"
  by (auto simp: transcribe_base64_audio_def Let_def split: sum.splits prod.splits)

lemma transcribe_audio_file_other_error:
  assumes "model env = Some m" and "m fs p = Inl (OtherException msg)"
    and "\<not> py_in ''ffmpeg'' (py_lower msg)"
  shows "transcribe_audio_file env fs p tr
           = (Inl (HTTPException 400 (''Failed to transcribe audio: '' @ msg)), tr @ [Transcribe p])"
  using assms by (simp add: transcribe_audio_file_def)

lemma transcribe_audio_file_missing_ffmpeg:
  assumes "model env = Some m" and "m fs p = Inl (FileNotFoundError msg)"
    and "py_in ''ffmpeg'' (py_lower msg)"
  shows "transcribe_audio_file env fs p tr = (Inl (HTTPException 500 ffmpeg_message), tr @ [Transcribe p])"
  using assms by (simp add: transcribe_audio_file_def)

lemma transcribe_audio_file_engine_error:
  assumes "model env = Some m" and "m fs p = Inl e"
  shows "transcribe_audio_file env fs p tr
     = (Inl (case e of
               FileNotFoundError msg \<Rightarrow>
                 if mentions_ffmpeg msg then HTTPException 500 ffmpeg_message
                 else HTTPException 400 (''Failed to transcribe audio: '' @ msg)
             | _ \<Rightarrow> HTTPException 400 (''Failed to transcribe audio: ''
                      @ (if mentions_ffmpeg (str_exn e) then ffmpeg_message else str_exn e))),
        tr @ [Transcribe p])"
  using assms
  by (cases e) (simp_all add: transcribe_audio_file_def mentions_ffmpeg_def Let_def)

lemma lenient_decode:
  "b64decode ''data:audio/mp3;base64,dummy''
     = Inr [117, 171, 90, 106, 231, 98, 163, 249, 169, 221, 182, 172, 123, 174, 29, 186, 105, 178]"
  by (simp add: b64decode_def b64_value_def)

lemma example_engine_run:
  "transcribe_audio_file env_webhook_up fs p tr
     = (Inr (''ola mundo'', ''pt'', 5 / 2), tr @ [Transcribe p])"
proof -
  have s: "py_strip '' ola mundo '' = ''ola mundo''" by code_simp
  show ?thesis
    by (simp add: transcribe_audio_file_def env_webhook_up_def example_engine_def s duration_of_def)
qed

text \<open>
  Called directly, the decoder of \<open>transcribe_base64_audio\<close> is lenient: it skips the
  characters outside the alphabet, so that the text \<^verbatim>\<open>data:audio/mp3;base64,dummy\<close>, which
  is not well-formed base64, is decoded and handed to the speech engine.
\<close>

lemma lenient_decode_run:
  "\<not> rfc4648_well_formed ''data:audio/mp3;base64,dummy''
   \<and> transcribe_base64_audio env_webhook_up ''data:audio/mp3;base64,dummy'' []
      = (Inr (''ola mundo'', ''pt'', 5 / 2), [Transcribe ''/tmp/tmpab12cd34.wav''])"
proof -
  have m: "\<not> rfc4648_well_formed ''data:audio/mp3;base64,dummy''" by code_simp
  have "named_temporary_file env_webhook_up ''.wav'' = Inr (''/tmp/tmpab12cd34'' @ ''.wav'')"
    by (rule named_temporary_file_example) simp_all
  then have t: "named_temporary_file env_webhook_up ''.wav'' = Inr ''/tmp/tmpab12cd34.wav''"
    by simp
  have "transcribe_base64_audio env_webhook_up ''data:audio/mp3;base64,dummy'' []
      = (Inr (''ola mundo'', ''pt'', 5 / 2), [Transcribe ''/tmp/tmpab12cd34.wav''])"
    by (simp add: transcribe_base64_audio_def lenient_decode Let_def t example_engine_run)
  with m show ?thesis by blast
qed

lemma show_nat_9: "show_nat 9 = ''9''"
  by (simp add: show_nat.simps digit_char_def)

lemma not_base64_decode:
  "b64decode ''not base64!''
     = Inl (BinasciiError
          ''Invalid base64-encoded string: number of data characters (9) cannot be 1 more than a multiple of 4'')"
  by (simp add: b64decode_def b64_value_def show_nat_9)

text \<open>
  Claim C6. A request with a valid key and the JSON body
  \<^verbatim>\<open>{"audio_base64": "not base64!"}\<close> is answered with status 400, but not by the
  decoder: the JSON body is not bound to \<open>request_data\<close>, the handler finds no payload,
  reports \<^verbatim>\<open>No audio data provided\<close> to the webhook and fails with the detail
  \<^verbatim>\<open>Either audio file or audio_base64 must be provided\<close>. The branch that decodes
  is not entered; called on the same text, \<open>transcribe_base64_audio\<close> fails with the
  decoder's message.
\<close>

theorem json_base64_is_never_decoded:
  "\<not> rfc4648_well_formed ''not base64!''
   \<and> json_body malformed_base64_request
        = Some \<lparr> audio_base64 = Some ''not base64!'', api_key = None \<rparr>
   \<and> fst (authenticate example_store 2000 malformed_base64_request) = Inr example_doc
   \<and> fst (post_transcribe env_webhook_up example_store 2000 malformed_base64_request)
        = Inl (HTTPException 400 ''Either audio file or audio_base64 must be provided'')
   \<and> fst (snd (post_transcribe env_webhook_up example_store 2000 malformed_base64_request))
        = [Post (ErrorPayload ''No audio data provided'' ''client'' None)]
   \<and> transcribe_base64_audio env_webhook_up ''not base64!'' []
        = (Inl (HTTPException 400
             ''Failed to process base64 audio: Invalid base64-encoded string: number of data characters (9) cannot be 1 more than a multiple of 4''),
           [])"
proof -
  have 1: "\<not> rfc4648_well_formed ''not base64!''" by code_simp
  have 2: "json_body malformed_base64_request
        = Some \<lparr> audio_base64 = Some ''not base64!'', api_key = None \<rparr>"
    by (simp add: malformed_base64_request_def)
  have 3: "fst (authenticate example_store 2000 malformed_base64_request) = Inr example_doc"
    by (rule authenticate_k1) (simp add: malformed_base64_request_def)
  have j: "json_body malformed_base64_request \<noteq> None" by (simp add: 2)
  have k: "key_name example_doc = ''client''" by (simp add: key_name_def example_doc_def)
  have 4: "fst (post_transcribe env_webhook_up example_store 2000 malformed_base64_request)
        = Inl (HTTPException 400 ''Either audio file or audio_base64 must be provided'')
     \<and> fst (snd (post_transcribe env_webhook_up example_store 2000 malformed_base64_request))
        = [Post (ErrorPayload ''No audio data provided'' ''client'' None)]"
    using json_body_is_not_bound [OF j 3, of env_webhook_up] by (simp only: k)
  have 5: "transcribe_base64_audio env_webhook_up ''not base64!'' []
        = (Inl (HTTPException 400
             ''Failed to process base64 audio: Invalid base64-encoded string: number of data characters (9) cannot be 1 more than a multiple of 4''),
           [])"
    using transcribe_base64_audio_decode_error [OF not_base64_decode, of env_webhook_up "[]"]
    by simp
  from 1 2 3 4 5 show ?thesis by blast
qed

lemma ffmpeg_in_message: "py_in ''ffmpeg'' (py_lower ffmpeg_not_found)"
  by code_simp

lemma show_nat_500: "show_nat 500 = ''500''"
  by (simp add: show_nat.simps digit_char_def)

lemma handle_file_engine_error:
  assumes "validate_audio_type (content_type u) (Some f)"
    and "length (content u) \<le> MAX_FILE_SIZE"
    and "named_temporary_file env (snd (splitext f)) = Inr path"
    and "validate_audio_file (Map.empty(path \<mapsto> content u)) path"
  shows "handle_file env u f key []
     = transcribe_audio_file env (Map.empty(path \<mapsto> content u)) path
         [ValidateType (content_type u) (Some f)]"
proof -
  have sz: "\<not> (case file_size u of None \<Rightarrow> False | Some n \<Rightarrow> n \<noteq> 0 \<and> n > MAX_FILE_SIZE)"
    using assms(2) by (simp add: file_size_check)
  show ?thesis
    unfolding handle_file_def Let_def assms(3) using assms(1,4) sz
    by (simp only: simp_thms if_False if_True append_Nil sum.case)
qed

lemma sample_upload_saved:
  assumes "tmp_dir env = ''/tmp''" and "tmp_rand env = ''ab12cd34''" and "tmp_fault env = None"
  shows "named_temporary_file env (snd (splitext ''sample.mp3'')) = Inr ''/tmp/tmpab12cd34.mp3''"
    and "validate_audio_file (Map.empty(''/tmp/tmpab12cd34.mp3'' \<mapsto> content sample_upload))
           ''/tmp/tmpab12cd34.mp3''"
proof -
  have e: "snd (splitext ''sample.mp3'') = ''.mp3''" by code_simp
  show "named_temporary_file env (snd (splitext ''sample.mp3'')) = Inr ''/tmp/tmpab12cd34.mp3''"
    by (simp add: e named_temporary_file_def assms utf8_length_def NAME_MAX_def temp_file_name_def)
  have e2: "py_lower (snd (splitext ''/tmp/tmpab12cd34.mp3'')) \<in> set allowed_extensions"
    by code_simp
  show "validate_audio_file (Map.empty(''/tmp/tmpab12cd34.mp3'' \<mapsto> content sample_upload))
           ''/tmp/tmpab12cd34.mp3''"
    using e2 by (simp add: validate_audio_file_def sample_upload_def MAX_FILE_SIZE_def)
qed

lemma sample_upload_facts:
  "filename sample_upload = Some ''sample.mp3''"
  "validate_audio_type (content_type sample_upload) (Some ''sample.mp3'')"
  "length (content sample_upload) \<le> MAX_FILE_SIZE"
  "content_type sample_upload = Some ''audio/mpeg''"
proof -
  show "filename sample_upload = Some ''sample.mp3''" by (simp add: sample_upload_def)
  show "content_type sample_upload = Some ''audio/mpeg''" by (simp add: sample_upload_def)
  have "validate_audio_type (Some ''audio/mpeg'') (Some ''sample.mp3'')" by code_simp
  then show "validate_audio_type (content_type sample_upload) (Some ''sample.mp3'')"
    by (simp add: sample_upload_def)
  show "length (content sample_upload) \<le> MAX_FILE_SIZE"
    by (simp add: sample_upload_def MAX_FILE_SIZE_def)
qed

lemma bad_audio_run:
  "transcribe_audio env_bad_audio (Some sample_upload) None None example_doc
     = (Inl (HTTPException 400 (''Failed to transcribe audio: '' @ ffmpeg_message)),
        [ValidateType (Some ''audio/mpeg'') (Some ''sample.mp3''),
         Transcribe ''/tmp/tmpab12cd34.mp3''])"
proof -
  have m: "model env_bad_audio = Some (\<lambda>fs p. Inl (OtherException load_audio_failed))"
    by (simp add: env_bad_audio_def)
  have f: "mentions_ffmpeg load_audio_failed" by code_simp
  have t: "named_temporary_file env_bad_audio (snd (splitext ''sample.mp3''))
             = Inr ''/tmp/tmpab12cd34.mp3''"
    by (rule sample_upload_saved) (simp_all add: env_bad_audio_def)
  have vf: "validate_audio_file (Map.empty(''/tmp/tmpab12cd34.mp3'' \<mapsto> content sample_upload))
           ''/tmp/tmpab12cd34.mp3''"
    by (rule sample_upload_saved [of env_bad_audio]) (simp_all add: env_bad_audio_def)
  have "handle_file env_bad_audio sample_upload ''sample.mp3'' example_doc []
     = transcribe_audio_file env_bad_audio
         (Map.empty(''/tmp/tmpab12cd34.mp3'' \<mapsto> content sample_upload)) ''/tmp/tmpab12cd34.mp3''
         [ValidateType (content_type sample_upload) (Some ''sample.mp3'')]"
    by (rule handle_file_engine_error [OF sample_upload_facts(2,3) t vf])
  also have "\<dots> = (Inl (HTTPException 400 (''Failed to transcribe audio: '' @ ffmpeg_message)),
        [ValidateType (Some ''audio/mpeg'') (Some ''sample.mp3''),
         Transcribe ''/tmp/tmpab12cd34.mp3''])"
    by (simp add: transcribe_audio_file_engine_error [OF m refl] f sample_upload_facts(4))
  finally have "handle_payload env_bad_audio (Some sample_upload) None example_doc []
     = (Inl (HTTPException 400 (''Failed to transcribe audio: '' @ ffmpeg_message)),
        [ValidateType (Some ''audio/mpeg'') (Some ''sample.mp3''),
         Transcribe ''/tmp/tmpab12cd34.mp3''])"
    by (simp add: handle_payload_def sample_upload_facts(1) truthy_def)
  from transcribe_audio_http_error [OF this] show ?thesis .
qed

lemma no_ffmpeg_base64_run:
  "transcribe_base64_audio env_no_ffmpeg ''aGVsbG8='' []
      = (Inl (HTTPException 400 (''Failed to process base64 audio: 500: '' @ ffmpeg_message)),
         [Transcribe ''/tmp/tmpab12cd34.wav''])"
proof -
  have m: "model env_no_ffmpeg = Some (\<lambda>fs p. Inl (FileNotFoundError ffmpeg_not_found))"
    by (simp add: env_no_ffmpeg_def)
  have tf: "\<And>fs p tr. transcribe_audio_file env_no_ffmpeg fs p tr
      = (Inl (HTTPException 500 ffmpeg_message), tr @ [Transcribe p])"
    by (rule transcribe_audio_file_missing_ffmpeg [OF m refl ffmpeg_in_message])
  have d: "b64decode ''aGVsbG8='' = Inr [104, 101, 108, 108, 111]"
    by (simp add: b64decode_def b64_value_def)
  have t: "named_temporary_file env_no_ffmpeg ''.wav'' = Inr ''/tmp/tmpab12cd34.wav''"
    by (simp add: named_temporary_file_def env_no_ffmpeg_def utf8_length_def NAME_MAX_def
        temp_file_name_def)
  show ?thesis
    by (simp add: transcribe_base64_audio_def d Let_def t tf show_nat_500)
qed

text \<open>
  Claim C5, as stated, fails on both paths. On the file path, an engine exception that is
  not a \<open>FileNotFoundError\<close> and whose message mentions \<^verbatim>\<open>ffmpeg\<close> (the engine's report
  of an unreadable file does) is answered with status 400 and the text that asks to install
  \<^verbatim>\<open>ffmpeg\<close> in place of the underlying message. On the base64 path the 500 of a missing
  \<^verbatim>\<open>ffmpeg\<close> is not what the caller gets: a request with a JSON body does not reach the
  engine at all, and \<open>transcribe_base64_audio\<close>, called directly, turns the 500 into a 400.
\<close>

theorem engine_failure_not_carried:
  "model env_bad_audio = Some (\<lambda>fs p. Inl (OtherException load_audio_failed))
   \<and> mentions_ffmpeg load_audio_failed
   \<and> fst (post_transcribe env_bad_audio example_store 2000 sample_upload_request)
        = Inl (HTTPException 400 (''Failed to transcribe audio: '' @ ffmpeg_message))
   \<and> ffmpeg_message \<noteq> load_audio_failed
   \<and> model env_no_ffmpeg = Some (\<lambda>fs p. Inl (FileNotFoundError ffmpeg_not_found))
   \<and> mentions_ffmpeg ffmpeg_not_found
   \<and> fst (post_transcribe env_no_ffmpeg example_store 2000 header_key_request)
        = Inl (HTTPException 400 ''Either audio file or audio_base64 must be provided'')
   \<and> \<not> list_ex is_transcribe
          (fst (snd (post_transcribe env_no_ffmpeg example_store 2000 header_key_request)))
   \<and> fst (transcribe_base64_audio env_no_ffmpeg ''aGVsbG8='' [])
        = Inl (HTTPException 400 (''Failed to process base64 audio: 500: '' @ ffmpeg_message))"
proof -
  have 1: "model env_bad_audio = Some (\<lambda>fs p. Inl (OtherException load_audio_failed))"
    by (simp add: env_bad_audio_def)
  have 2: "mentions_ffmpeg load_audio_failed" by code_simp
  have a: "fst (authenticate example_store 2000 sample_upload_request) = Inr example_doc"
    by (rule authenticate_k1) (simp add: sample_upload_request_def)
  have 3: "fst (post_transcribe env_bad_audio example_store 2000 sample_upload_request)
        = Inl (HTTPException 400 (''Failed to transcribe audio: '' @ ffmpeg_message))"
    using file_part_is_bound [OF _ _ _ _ a, of sample_upload env_bad_audio]
    by (simp add: sample_upload_request_def bad_audio_run)
  have 4: "ffmpeg_message \<noteq> load_audio_failed"
    by (simp add: ffmpeg_message_def load_audio_failed_def)
  have 5: "model env_no_ffmpeg = Some (\<lambda>fs p. Inl (FileNotFoundError ffmpeg_not_found))"
    by (simp add: env_no_ffmpeg_def)
  have 6: "mentions_ffmpeg ffmpeg_not_found"
    using ffmpeg_in_message by (simp add: mentions_ffmpeg_def)
  have b: "fst (authenticate example_store 2000 header_key_request) = Inr example_doc"
    by (rule authenticate_k1) (simp add: header_key_request_def body_key_request_def)
  have j: "json_body header_key_request \<noteq> None"
    by (simp add: header_key_request_def body_key_request_def)
  have 7: "fst (post_transcribe env_no_ffmpeg example_store 2000 header_key_request)
        = Inl (HTTPException 400 ''Either audio file or audio_base64 must be provided'')"
    and 8: "\<not> list_ex is_transcribe
          (fst (snd (post_transcribe env_no_ffmpeg example_store 2000 header_key_request)))"
    using json_body_is_not_bound [OF j b, of env_no_ffmpeg] by simp_all
  have 9: "fst (transcribe_base64_audio env_no_ffmpeg ''aGVsbG8='' [])
        = Inl (HTTPException 400 (''Failed to process base64 audio: 500: '' @ ffmpeg_message))"
    by (simp add: no_ffmpeg_base64_run)
  from 1 2 3 4 5 6 7 8 9 show ?thesis by blast
qed

text \<open>
  Claim C5, amended. On the file-backed path, for an upload that passes the checks before
  the transcription, a failure of the speech engine is answered as follows, with nothing
  sent to the webhook. A \<open>FileNotFoundError\<close> whose message mentions \<^verbatim>\<open>ffmpeg\<close> gives
  status 500 with the text that asks to install \<^verbatim>\<open>ffmpeg\<close>; a \<open>FileNotFoundError\<close> that
  does not mention it gives status 400 with \<^verbatim>\<open>Failed to transcribe audio:\<close> and the
  underlying message. Every other exception gives status 400 with
  \<^verbatim>\<open>Failed to transcribe audio:\<close> and the underlying message, unless that message
  mentions \<^verbatim>\<open>ffmpeg\<close>: then the text that asks to install it stands in its place.
\<close>

theorem file_path_engine_failure:
  assumes "filename u = Some f" and "f \<noteq> []"
    and "validate_audio_type (content_type u) (Some f)"
    and "length (content u) \<le> MAX_FILE_SIZE"
    and "named_temporary_file env (snd (splitext f)) = Inr path"
    and "validate_audio_file (Map.empty(path \<mapsto> content u)) path"
    and "model env = Some m"
    and "m (Map.empty(path \<mapsto> content u)) path = Inl e"
  shows "transcribe_audio env (Some u) akf rd key
     = (Inl (case e of
               FileNotFoundError msg \<Rightarrow>
                 if mentions_ffmpeg msg then HTTPException 500 ffmpeg_message
                 else HTTPException 400 (''Failed to transcribe audio: '' @ msg)
             | _ \<Rightarrow> HTTPException 400 (''Failed to transcribe audio: ''
                      @ (if mentions_ffmpeg (str_exn e) then ffmpeg_message else str_exn e))),
        [ValidateType (content_type u) (Some f), Transcribe path])"
proof -
  define r where "r = (case e of
               FileNotFoundError msg \<Rightarrow>
                 if mentions_ffmpeg msg then HTTPException 500 ffmpeg_message
                 else HTTPException 400 (''Failed to transcribe audio: '' @ msg)
             | _ \<Rightarrow> HTTPException 400 (''Failed to transcribe audio: ''
                      @ (if mentions_ffmpeg (str_exn e) then ffmpeg_message else str_exn e)))"
  have "\<exists>sc d. r = HTTPException sc d"
    unfolding r_def by (cases e) simp_all
  then obtain sc d where r: "r = HTTPException sc d" by blast
  have "handle_payload env (Some u) rd key [] = handle_file env u f key []"
    using assms(1,2) by (simp add: handle_payload_def truthy_def)
  also have "\<dots> = transcribe_audio_file env (Map.empty(path \<mapsto> content u)) path
         [ValidateType (content_type u) (Some f)]"
    by (rule handle_file_engine_error [OF assms(3,4,5,6)])
  also have "\<dots> = (Inl r, [ValidateType (content_type u) (Some f), Transcribe path])"
    unfolding r_def by (simp add: transcribe_audio_file_engine_error [OF assms(7,8)])
  finally have "handle_payload env (Some u) rd key []
      = (Inl (HTTPException sc d), [ValidateType (content_type u) (Some f), Transcribe path])"
    by (simp only: r)
  from transcribe_audio_http_error [OF this]
  have "transcribe_audio env (Some u) akf rd key
      = (Inl r, [ValidateType (content_type u) (Some f), Transcribe path])"
    by (simp only: r)
  then show ?thesis by (simp only: r_def)
qed

theorem file_path_engine_failure_witness:
  "filename sample_upload = Some ''sample.mp3''
   \<and> validate_audio_type (content_type sample_upload) (Some ''sample.mp3'')
   \<and> length (content sample_upload) \<le> MAX_FILE_SIZE
   \<and> named_temporary_file env_no_ffmpeg (snd (splitext ''sample.mp3''))
        = Inr ''/tmp/tmpab12cd34.mp3''
   \<and> validate_audio_file (Map.empty(''/tmp/tmpab12cd34.mp3'' \<mapsto> content sample_upload))
        ''/tmp/tmpab12cd34.mp3''
   \<and> model env_no_ffmpeg = Some (\<lambda>fs p. Inl (FileNotFoundError ffmpeg_not_found))
   \<and> transcribe_audio env_no_ffmpeg (Some sample_upload) None None example_doc
     = (Inl (HTTPException 500 ffmpeg_message),
        [ValidateType (Some ''audio/mpeg'') (Some ''sample.mp3''),
         Transcribe ''/tmp/tmpab12cd34.mp3''])"
proof -
  have n: "''sample.mp3'' \<noteq> []" by simp
  have m: "model env_no_ffmpeg = Some (\<lambda>fs p. Inl (FileNotFoundError ffmpeg_not_found))"
    by (simp add: env_no_ffmpeg_def)
  have t: "named_temporary_file env_no_ffmpeg (snd (splitext ''sample.mp3''))
             = Inr ''/tmp/tmpab12cd34.mp3''"
    by (rule sample_upload_saved) (simp_all add: env_no_ffmpeg_def)
  have vf: "validate_audio_file (Map.empty(''/tmp/tmpab12cd34.mp3'' \<mapsto> content sample_upload))
           ''/tmp/tmpab12cd34.mp3''"
    by (rule sample_upload_saved [of env_no_ffmpeg]) (simp_all add: env_no_ffmpeg_def)
  have f: "mentions_ffmpeg ffmpeg_not_found"
    using ffmpeg_in_message by (simp add: mentions_ffmpeg_def)
  from file_path_engine_failure [OF sample_upload_facts(1) n sample_upload_facts(2,3) t vf m refl,
      of None None example_doc]
  have "transcribe_audio env_no_ffmpeg (Some sample_upload) None None example_doc
     = (Inl (HTTPException 500 ffmpeg_message),
        [ValidateType (Some ''audio/mpeg'') (Some ''sample.mp3''),
         Transcribe ''/tmp/tmpab12cd34.mp3''])"
    by (simp add: f sample_upload_facts(4))
  with sample_upload_facts(1,2,3) t vf m show ?thesis by blast
qed

end
